theory Spec2Isabelle
  imports Complex_Main
begin

section \<open>Values of the JavaScript runtime\<close>

text \<open>
  Payloads that the client treats as opaque (\<^verbatim>\<open>any\<close>, \<^verbatim>\<open>Record<string, any>\<close>) are JSON
  values. An absent property (\<^verbatim>\<open>undefined\<close>) is \<open>None\<close> of an option type throughout. A
  \<^verbatim>\<open>Date\<close> is a number of milliseconds. Strings are lists of characters.
\<close>

datatype json =
    JNull
  | JBool bool
  | JNum rat
  | JStr string
  | JArr "json list"
  | JObj "(string \<times> json) list"

type_synonym jsval = "json option"

type_synonym Date = nat

text \<open>JavaScript truthiness, as used by \<^verbatim>\<open>||\<close>, \<^verbatim>\<open>&&\<close>, \<^verbatim>\<open>!\<close> and \<^verbatim>\<open>if\<close>.\<close>

fun truthy :: "jsval \<Rightarrow> bool" where
  "truthy None = False"
| "truthy (Some JNull) = False"
| "truthy (Some (JBool b)) = b"
| "truthy (Some (JNum n)) = (n \<noteq> 0)"
| "truthy (Some (JStr s)) = (s \<noteq> [])"
| "truthy (Some (JArr _)) = True"
| "truthy (Some (JObj _)) = True"

definition truthy_bool :: "bool option \<Rightarrow> bool" where
  "truthy_bool b = (b = Some True)"

definition truthy_str :: "string option \<Rightarrow> bool" where
  "truthy_str s = (case s of None \<Rightarrow> False | Some t \<Rightarrow> t \<noteq> [])"

text \<open>\<^verbatim>\<open>String.prototype.startsWith\<close> and \<^verbatim>\<open>String.prototype.includes\<close> (written \<open>includes_str\<close>).\<close>

fun startsWith :: "string \<Rightarrow> string \<Rightarrow> bool" where
  "startsWith s [] = True"
| "startsWith [] (p # ps) = False"
| "startsWith (c # cs) (p # ps) = (c = p \<and> startsWith cs ps)"

fun includes_str :: "string \<Rightarrow> string \<Rightarrow> bool" where
  "includes_str [] sub = startsWith [] sub"
| "includes_str (c # cs) sub = (startsWith (c # cs) sub \<or> includes_str cs sub)"

text \<open>\<^verbatim>\<open>Array.prototype.findIndex\<close>; the result \<open>-1\<close> of the source is \<open>None\<close>.\<close>

fun findIndex :: "('a \<Rightarrow> bool) \<Rightarrow> 'a list \<Rightarrow> nat option" where
  "findIndex P [] = None"
| "findIndex P (x # xs) = (if P x then Some 0 else map_option Suc (findIndex P xs))"

text \<open>
  The source mutates the object that \<^verbatim>\<open>find\<close> returned; the array holds that object, so
  the first element satisfying the predicate changes in place.
\<close>

fun update_found :: "('a \<Rightarrow> bool) \<Rightarrow> ('a \<Rightarrow> 'a) \<Rightarrow> 'a list \<Rightarrow> 'a list" where
  "update_found P f [] = []"
| "update_found P f (x # xs) = (if P x then f x # xs else x # update_found P f xs)"

section \<open>Messages (types.ts)\<close>

datatype Role = User | Assistant | Tool | ErrorRole | ApprovalRequestRole

datatype ToolStatus = Success | Failure

datatype ApprovalStatus = Approved | Denied

text \<open>
  What \<^verbatim>\<open>assignToolInstance\<close> can return: a number, \<^verbatim>\<open>NaN\<close>, or a value inherited
  from \<^verbatim>\<open>Object.prototype\<close> (see the controller below).
\<close>

datatype jsnumber = Num nat | NaN | Inherited

text \<open>
  \<^verbatim>\<open>BaseMessage\<close> and \<^verbatim>\<open>ToolMessage\<close> live in one array and the code reads tool fields off
  any element through a cast, so one record carries both; every optional field is an
  option. The field \<^verbatim>\<open>id\<close> is written \<open>id'\<close>.
\<close>

record Message =
  id' :: string
  correlationId :: "string option"
  role :: Role
  message :: string
  timestamp :: Date
  isStreaming :: "bool option"
  isLoading :: "bool option"
  isPending :: "bool option"
  error :: "string option"
  cancelled :: "bool option"
  toolName :: "string option"
  toolCallId :: "string option"
  toolInput :: jsval
  status :: "ToolStatus option"
  toolOutput :: jsval
  instanceNumber :: "jsnumber option"
  waitingForApproval :: "bool option"
  approvalStatus :: "ApprovalStatus option"
  approvalLevel :: "string option"
  approvalMessage :: "string option"
  riskLevel :: "string option"
  affectedResources :: "string list option"
  reversible :: "bool option"
  estimatedImpact :: "string option"
  similarOperationsCount :: "int option"
  availableApprovalLevels :: "string list option"
  defaultApprovalLevel :: "string option"

text \<open>An object literal that sets only the five mandatory fields.\<close>

definition base_message :: "string \<Rightarrow> Role \<Rightarrow> string \<Rightarrow> Date \<Rightarrow> Message" where
  "base_message i r txt ts =
     \<lparr> id' = i, correlationId = None, role = r, message = txt, timestamp = ts,
       isStreaming = None, isLoading = None, isPending = None, error = None,
       cancelled = None, toolName = None, toolCallId = None, toolInput = None,
       status = None, toolOutput = None, instanceNumber = None,
       waitingForApproval = None, approvalStatus = None, approvalLevel = None,
       approvalMessage = None, riskLevel = None, affectedResources = None,
       reversible = None, estimatedImpact = None, similarOperationsCount = None,
       availableApprovalLevels = None, defaultApprovalLevel = None \<rparr>"

text \<open>
  The \<^verbatim>\<open>Partial<...>\<close> objects handed to \<^verbatim>\<open>Object.assign\<close>: one entry per own property,
  in order; a property present with value \<^verbatim>\<open>undefined\<close> is an entry holding \<open>None\<close>. The
  constructors are the properties the repository's callers set.
\<close>

datatype FieldUpdate =
    Set_error "string option"
  | Set_isStreaming "bool option"
  | Set_status "ToolStatus option"
  | Set_toolOutput jsval
  | Set_waitingForApproval "bool option"
  | Set_approvalStatus "ApprovalStatus option"
  | Set_approvalLevel "string option"

fun assign_field :: "FieldUpdate \<Rightarrow> Message \<Rightarrow> Message" where
  "assign_field (Set_error v) m = m\<lparr>error := v\<rparr>"
| "assign_field (Set_isStreaming v) m = m\<lparr>isStreaming := v\<rparr>"
| "assign_field (Set_status v) m = m\<lparr>status := v\<rparr>"
| "assign_field (Set_toolOutput v) m = m\<lparr>toolOutput := v\<rparr>"
| "assign_field (Set_waitingForApproval v) m = m\<lparr>waitingForApproval := v\<rparr>"
| "assign_field (Set_approvalStatus v) m = m\<lparr>approvalStatus := v\<rparr>"
| "assign_field (Set_approvalLevel v) m = m\<lparr>approvalLevel := v\<rparr>"

definition Object_assign :: "Message \<Rightarrow> FieldUpdate list \<Rightarrow> Message" where
  "Object_assign m updates = fold assign_field updates m"

section \<open>Conversation state (ChatState)\<close>

datatype ChatStateSnapshot =
  Snapshot (snap_threadId: string) (snap_messages: "Message list")

text \<open>
  A subscriber is a callback; the model names it and records each invocation with the
  snapshot it received, in the order the invocations happen (\<open>calls\<close>). Subscribers are
  observers: they do not call back into the state.
\<close>

type_synonym subscriber = nat

record ChatState =
  threadId :: string
  messages :: "Message list"
  subscribers :: "subscriber list"
  sessionStartTime :: Date
  calls :: "(subscriber \<times> ChatStateSnapshot) list"

definition emit :: "ChatState \<Rightarrow> ChatState" where
  "emit s = s\<lparr>calls := calls s @
     map (\<lambda>fn. (fn, Snapshot (threadId s) (messages s))) (subscribers s)\<rparr>"

text \<open>The constructor; \<open>tid\<close> is the given thread id or the value \<^verbatim>\<open>uuidv4()\<close> returned.\<close>

definition new_ChatState :: "string \<Rightarrow> Date \<Rightarrow> ChatState" where
  "new_ChatState tid now =
     \<lparr> threadId = tid, messages = [], subscribers = [], sessionStartTime = now, calls = [] \<rparr>"

definition getThreadId :: "ChatState \<Rightarrow> string" where
  "getThreadId s = threadId s"

definition setThreadId :: "string \<Rightarrow> Date \<Rightarrow> ChatState \<Rightarrow> ChatState" where
  "setThreadId newId now s =
     emit (s\<lparr>threadId := newId, messages := [], sessionStartTime := now\<rparr>)"

definition syncThreadId :: "string \<Rightarrow> ChatState \<Rightarrow> ChatState" where
  "syncThreadId backendThreadId s =
     (if threadId s \<noteq> backendThreadId then emit (s\<lparr>threadId := backendThreadId\<rparr>) else s)"

definition syncUserMessage :: "string \<Rightarrow> string \<Rightarrow> ChatState \<Rightarrow> ChatState" where
  "syncUserMessage backendId corrId s =
     (case find (\<lambda>msg. id' msg = backendId) (messages s) of
        Some existingMessage \<Rightarrow> s
      | None \<Rightarrow>
         (case findIndex (\<lambda>msg. correlationId msg = Some corrId \<and> isPending msg = Some True)
                 (messages s) of
            Some index \<Rightarrow>
              emit (s\<lparr>messages := (messages s)
                [index := ((messages s) ! index)\<lparr>id' := backendId, isPending := Some False\<rparr>]\<rparr>)
          | None \<Rightarrow> s))"

definition addMessage :: "Message \<Rightarrow> ChatState \<Rightarrow> ChatState" where
  "addMessage msg s =
     (if list_ex (\<lambda>existing. id' existing = id' msg) (messages s) then s
      else emit (s\<lparr>messages := messages s @ [msg]\<rparr>))"

definition addToolMessage :: "Message \<Rightarrow> ChatState \<Rightarrow> ChatState" where
  "addToolMessage toolMessage s =
     (if list_ex (\<lambda>existing. id' existing = id' toolMessage) (messages s) then s
      else emit (s\<lparr>messages := messages s @ [toolMessage]\<rparr>))"

definition getMessage :: "string \<Rightarrow> ChatState \<Rightarrow> Message option" where
  "getMessage messageId s = find (\<lambda>msg. id' msg = messageId) (messages s)"

definition is_tool_call :: "string \<Rightarrow> Message \<Rightarrow> bool" where
  "is_tool_call tcid msg = (role msg = Tool \<and> toolCallId msg = Some tcid)"

definition getToolMessageByCallId :: "string \<Rightarrow> ChatState \<Rightarrow> Message option" where
  "getToolMessageByCallId tcid s = find (is_tool_call tcid) (messages s)"

record ApprovalMetadata =
  md_riskLevel :: string
  md_affectedResources :: "string list"
  md_reversible :: bool
  md_estimatedImpact :: string
  md_similarOperationsCount :: int
  md_availableApprovalLevels :: "string list"
  md_defaultApprovalLevel :: string

definition addApprovalRequest ::
  "Date \<Rightarrow> string \<Rightarrow> string \<Rightarrow> jsval \<Rightarrow> string \<Rightarrow> ApprovalMetadata \<Rightarrow> ChatState \<Rightarrow> ChatState" where
  "addApprovalRequest now tcid tname tinput approvalMsg metadata s =
     emit
      (case getToolMessageByCallId tcid s of
         Some toolMessage \<Rightarrow>
           s\<lparr>messages := update_found (is_tool_call tcid)
             (\<lambda>m. m\<lparr>waitingForApproval := Some True,
                     approvalStatus := None,
                     approvalMessage := Some approvalMsg,
                     riskLevel := Some (md_riskLevel metadata),
                     affectedResources := Some (md_affectedResources metadata),
                     reversible := Some (md_reversible metadata),
                     estimatedImpact := Some (md_estimatedImpact metadata),
                     similarOperationsCount := Some (md_similarOperationsCount metadata),
                     availableApprovalLevels := Some (md_availableApprovalLevels metadata),
                     defaultApprovalLevel := Some (md_defaultApprovalLevel metadata)\<rparr>)
             (messages s)\<rparr>
       | None \<Rightarrow>
           addToolMessage
             ((base_message tcid Tool [] now)
                \<lparr>toolCallId := Some tcid,
                 toolName := Some tname,
                 toolInput := tinput,
                 isStreaming := Some False,
                 waitingForApproval := Some True,
                 approvalMessage := Some approvalMsg,
                 riskLevel := Some (md_riskLevel metadata),
                 affectedResources := Some (md_affectedResources metadata),
                 reversible := Some (md_reversible metadata),
                 estimatedImpact := Some (md_estimatedImpact metadata),
                 similarOperationsCount := Some (md_similarOperationsCount metadata),
                 availableApprovalLevels := Some (md_availableApprovalLevels metadata),
                 defaultApprovalLevel := Some (md_defaultApprovalLevel metadata)\<rparr>)
             s)"

text \<open>One element of the \<^verbatim>\<open>toolCalls\<close> array of a batch approval request.\<close>

datatype BatchToolCall =
  BatchToolCall (bt_toolCallId: string) (bt_toolName: string) (bt_toolInput: jsval)
    (bt_message: string) (bt_metadata: ApprovalMetadata)

definition addBatchApprovalRequest :: "Date \<Rightarrow> BatchToolCall list \<Rightarrow> ChatState \<Rightarrow> ChatState" where
  "addBatchApprovalRequest now toolCalls s =
     fold (\<lambda>tc. addApprovalRequest now (bt_toolCallId tc) (bt_toolName tc) (bt_toolInput tc)
                   (bt_message tc) (bt_metadata tc))
          toolCalls s"

definition getPendingApprovals :: "ChatState \<Rightarrow> Message list" where
  "getPendingApprovals s =
     filter (\<lambda>msg. role msg = Tool \<and> truthy_bool (waitingForApproval msg)) (messages s)"

definition updateApprovalRequest :: "string \<Rightarrow> bool \<Rightarrow> ChatState \<Rightarrow> ChatState" where
  "updateApprovalRequest tcid approved s =
     emit (s\<lparr>messages := update_found (is_tool_call tcid)
       (\<lambda>m. m\<lparr>approvalStatus := Some (if approved then Approved else Denied)\<rparr>)
       (messages s)\<rparr>)"

definition removeApprovalRequest :: "string \<Rightarrow> ChatState \<Rightarrow> ChatState" where
  "removeApprovalRequest tcid s =
     emit (s\<lparr>messages := update_found (is_tool_call tcid)
       (\<lambda>m. if approvalStatus m = Some Approved
             then m\<lparr>waitingForApproval := Some False, isStreaming := Some True\<rparr>
             else m\<lparr>waitingForApproval := Some False\<rparr>)
       (messages s)\<rparr>)"

definition removeLoadingMessages :: "ChatState \<Rightarrow> ChatState" where
  "removeLoadingMessages s =
     emit (s\<lparr>messages := filter (\<lambda>msg. \<not> truthy_bool (isLoading msg)) (messages s)\<rparr>)"

definition appendToMessage :: "string \<Rightarrow> string \<Rightarrow> ChatState \<Rightarrow> ChatState" where
  "appendToMessage messageId txt s =
     (case find (\<lambda>msg. id' msg = messageId) (messages s) of
        Some found \<Rightarrow>
          emit (s\<lparr>messages := update_found (\<lambda>msg. id' msg = messageId)
            (\<lambda>m. m\<lparr>message := message m @ txt\<rparr>) (messages s)\<rparr>)
      | None \<Rightarrow> s)"

definition markMessageComplete :: "string \<Rightarrow> ChatState \<Rightarrow> ChatState" where
  "markMessageComplete messageId s =
     (case find (\<lambda>msg. id' msg = messageId) (messages s) of
        None \<Rightarrow> s
      | Some found \<Rightarrow>
          if \<not> truthy_bool (isStreaming found) then s
          else emit (s\<lparr>messages := update_found (\<lambda>msg. id' msg = messageId)
            (\<lambda>m. m\<lparr>isStreaming := Some False\<rparr>) (messages s)\<rparr>))"

definition updateMessage :: "string \<Rightarrow> FieldUpdate list \<Rightarrow> ChatState \<Rightarrow> ChatState" where
  "updateMessage messageId updates s =
     (case find (\<lambda>msg. id' msg = messageId) (messages s) of
        Some found \<Rightarrow>
          emit (s\<lparr>messages := update_found (\<lambda>msg. id' msg = messageId)
            (\<lambda>m. Object_assign m updates) (messages s)\<rparr>)
      | None \<Rightarrow> s)"

definition updateToolMessage :: "string \<Rightarrow> FieldUpdate list \<Rightarrow> ChatState \<Rightarrow> ChatState" where
  "updateToolMessage tcid updates s =
     (case getToolMessageByCallId tcid s of
        Some toolMessage \<Rightarrow>
          emit (s\<lparr>messages := update_found (is_tool_call tcid)
            (\<lambda>m. Object_assign m updates) (messages s)\<rparr>)
      | None \<Rightarrow> s)"

definition subscribe :: "subscriber \<Rightarrow> ChatState \<Rightarrow> ChatState" where
  "subscribe fn s =
     s\<lparr>subscribers := subscribers s @ [fn],
       calls := calls s @ [(fn, Snapshot (threadId s) (messages s))]\<rparr>"

definition stopAllStreaming :: "ChatState \<Rightarrow> ChatState" where
  "stopAllStreaming s =
     (let updated = list_ex (\<lambda>m. truthy_bool (isStreaming m)) (messages s);
          stopped = map (\<lambda>m. if truthy_bool (isStreaming m)
                              then m\<lparr>isStreaming := Some False, cancelled := Some True\<rparr>
                              else m) (messages s)
      in if updated then emit (s\<lparr>messages := stopped\<rparr>) else s)"

definition removeMessagesAfter :: "string \<Rightarrow> ChatState \<Rightarrow> ChatState" where
  "removeMessagesAfter messageId s =
     (case findIndex (\<lambda>msg. id' msg = messageId) (messages s) of
        None \<Rightarrow> s
      | Some index \<Rightarrow> emit (s\<lparr>messages := take (index + 1) (messages s)\<rparr>))"

definition clear :: "Date \<Rightarrow> ChatState \<Rightarrow> ChatState" where
  "clear now s = emit (s\<lparr>messages := [], sessionStartTime := now\<rparr>)"

definition isStaleMessage :: "Date \<Rightarrow> string \<Rightarrow> ChatState \<Rightarrow> bool" where
  "isStaleMessage now messageId s =
     (if startsWith messageId ''run-'' then int now - int (sessionStartTime s) < 5000 else False)"

section \<open>Chat controller (ChatController)\<close>

text \<open>The typed events the transport hands to the controller (\<^verbatim>\<open>StreamEvent\<close>).\<close>

datatype StreamEvent =
    user_message_confirmed string string string nat
  | assistant_start string Date
  | assistant_token string string
  | assistant_complete string
  | tool_start string string jsval
  | tool_token string string
  | tool_complete string string jsval ToolStatus
  | approval_request string string jsval string ApprovalMetadata
  | batch_approval_request "BatchToolCall list" "string list"
  | thread_sync string
  | error_event "string option" string

text \<open>
  A value that was thrown or passed to the error callback: an \<^verbatim>\<open>Error\<close> object with its
  name and message, or something that is not an \<^verbatim>\<open>Error\<close>.
\<close>

datatype thrown = ErrorObject (err_name: string) (err_message: string) | NotAnError

text \<open>The calls the controller makes on its \<^verbatim>\<open>ChatService\<close>, in order.\<close>

datatype ServiceCall =
    Send Message string
  | SendApproval string bool string "string option"
  | SendBatchApproval "(string \<times> bool \<times> string) list" string
  | Regenerate string string
  | Cancel string

text \<open>
  What an operation reads from its environment: the values the successive calls of
  \<^verbatim>\<open>uuidv4()\<close> return during the operation, the value of \<^verbatim>\<open>new Date()\<close>, and
  \<^verbatim>\<open>JSON.stringify\<close>.
\<close>

record Ambient =
  uuidv4 :: "nat \<Rightarrow> string"
  Date_now :: Date
  JSON_stringify :: "json \<Rightarrow> string"

text \<open>
  \<^verbatim>\<open>toolInstanceCounts\<close> is an object literal \<^verbatim>\<open>{}\<close>: a property read that finds no own
  property continues in \<^verbatim>\<open>Object.prototype\<close>, whose properties are functions (truthy,
  and \<^verbatim>\<open>NaN\<close> as numbers). \<^verbatim>\<open>__proto__\<close> is an accessor there: reading it yields the
  prototype, and writing a number to it changes nothing. The map holds the own
  properties. Counts are natural numbers (exact in a double below \<open>2^53\<close>).
\<close>

definition Object_prototype_keys :: "string list" where
  "Object_prototype_keys =
     [''constructor'', ''__defineGetter__'', ''__defineSetter__'', ''hasOwnProperty'',
      ''__lookupGetter__'', ''__lookupSetter__'', ''isPrototypeOf'',
      ''propertyIsEnumerable'', ''toString'', ''valueOf'', ''__proto__'',
      ''toLocaleString'']"

definition get_count :: "(string \<rightharpoonup> jsnumber) \<Rightarrow> string \<Rightarrow> jsnumber option" where
  "get_count counts name =
     (case counts name of
        Some v \<Rightarrow> Some v
      | None \<Rightarrow> if name \<in> set Object_prototype_keys then Some Inherited else None)"

definition put_count :: "(string \<rightharpoonup> jsnumber) \<Rightarrow> string \<Rightarrow> jsnumber \<Rightarrow> (string \<rightharpoonup> jsnumber)" where
  "put_count counts name v = (if name = ''__proto__'' then counts else counts(name \<mapsto> v))"

fun truthy_num :: "jsnumber option \<Rightarrow> bool" where
  "truthy_num None = False"
| "truthy_num (Some (Num n)) = (n \<noteq> 0)"
| "truthy_num (Some NaN) = False"
| "truthy_num (Some Inherited) = True"

text \<open>The value stored by \<^verbatim>\<open>x++\<close>.\<close>

fun incremented :: "jsnumber option \<Rightarrow> jsnumber" where
  "incremented (Some (Num n)) = Num (n + 1)"
| "incremented (Some NaN) = NaN"
| "incremented (Some Inherited) = NaN"
| "incremented None = NaN"

definition assignToolInstance ::
  "string \<Rightarrow> (string \<rightharpoonup> jsnumber) \<Rightarrow> jsnumber option \<times> (string \<rightharpoonup> jsnumber)" where
  "assignToolInstance tname counts =
     (let counts1 = (if \<not> truthy_num (get_count counts tname)
                     then put_count counts tname (Num 0) else counts);
          counts2 = put_count counts1 tname (incremented (get_count counts1 tname))
      in (get_count counts2 tname, counts2))"

record ChatController =
  state :: ChatState
  toolInstanceCounts :: "string \<rightharpoonup> jsnumber"
  service_calls :: "ServiceCall list"

definition new_ChatController :: "ChatState \<Rightarrow> ChatController" where
  "new_ChatController s = \<lparr> state = s, toolInstanceCounts = Map.empty, service_calls = [] \<rparr>"

text \<open>The callback registered with \<^verbatim>\<open>service.onStreamEvent\<close>.\<close>

fun onStreamEvent :: "Ambient \<Rightarrow> StreamEvent \<Rightarrow> ChatController \<Rightarrow> ChatController" where
  "onStreamEvent amb (user_message_confirmed messageId corrId content ts) c =
     c\<lparr>state := syncUserMessage messageId corrId (state c)\<rparr>"
| "onStreamEvent amb (thread_sync tid) c =
     c\<lparr>state := syncThreadId tid (state c)\<rparr>"
| "onStreamEvent amb (assistant_start messageId ts) c =
     c\<lparr>state := addMessage ((base_message messageId Assistant [] ts)\<lparr>isStreaming := Some True\<rparr>)
                   (removeLoadingMessages (state c))\<rparr>"
| "onStreamEvent amb (assistant_token messageId token) c =
     c\<lparr>state := appendToMessage messageId token (state c)\<rparr>"
| "onStreamEvent amb (assistant_complete messageId) c =
     c\<lparr>state := markMessageComplete messageId (state c)\<rparr>"
| "onStreamEvent amb (tool_start tcid tname tinput) c =
     (let s1 = removeApprovalRequest tcid (state c);
          (instance, counts) = assignToolInstance tname (toolInstanceCounts c)
      in c\<lparr>state := addToolMessage
                ((base_message tcid Tool [] (Date_now amb))
                   \<lparr>toolCallId := Some tcid,
                    toolName := Some tname,
                    toolInput := tinput,
                    isStreaming := Some True,
                    instanceNumber := instance\<rparr>) s1,
            toolInstanceCounts := counts\<rparr>)"
| "onStreamEvent amb (tool_token tcid token) c = c"
| "onStreamEvent amb (tool_complete tcid tname toutput st) c =
     (let updates = [Set_toolOutput toutput, Set_status (Some st)] @
            (if st = Failure \<and> truthy toutput
             then [Set_error (Some (''Tool execution failed: '' @
                     (case toutput of
                        Some (JStr str) \<Rightarrow> str
                      | Some other \<Rightarrow> JSON_stringify amb other
                      | None \<Rightarrow> [])))]
             else [])
      in c\<lparr>state := markMessageComplete tcid (updateToolMessage tcid updates (state c))\<rparr>)"
| "onStreamEvent amb (error_event messageId err) c =
     (if truthy_str messageId then
        (case getMessage (the messageId) (state c) of
           Some found \<Rightarrow>
             if role found \<noteq> Tool
             then c\<lparr>state := updateMessage (the messageId) [Set_error (Some err)] (state c)\<rparr>
             else c
         | None \<Rightarrow> c)
      else
        c\<lparr>state := addMessage ((base_message (uuidv4 amb 0) ErrorRole [] (Date_now amb))
                                 \<lparr>error := Some err\<rparr>) (state c)\<rparr>)"
| "onStreamEvent amb (approval_request tcid tname tinput msg metadata) c =
     c\<lparr>state := addApprovalRequest (Date_now amb) tcid tname tinput msg metadata (state c)\<rparr>"
| "onStreamEvent amb (batch_approval_request toolCalls opts) c =
     c\<lparr>state := addBatchApprovalRequest (Date_now amb) toolCalls (state c)\<rparr>"

text \<open>The callback registered with \<^verbatim>\<open>service.onError\<close>.\<close>

definition onError :: "Ambient \<Rightarrow> thrown \<Rightarrow> ChatController \<Rightarrow> ChatController" where
  "onError amb err c =
     (let s1 = removeLoadingMessages (state c) in
      case err of
        ErrorObject nm msg \<Rightarrow>
          if msg \<noteq> [] \<and> includes_str msg ''BodyStreamBuffer was aborted''
          then c\<lparr>state := s1\<rparr>
          else c\<lparr>state := addMessage ((base_message (uuidv4 amb 0) ErrorRole [] (Date_now amb))
                                        \<lparr>error := Some msg\<rparr>) s1\<rparr>
      | NotAnError \<Rightarrow>
          c\<lparr>state := addMessage (base_message (uuidv4 amb 0) ErrorRole [] (Date_now amb)) s1\<rparr>)"

text \<open>
  \<^verbatim>\<open>send\<close> up to the point where it hands the promise of \<^verbatim>\<open>service.send\<close> back.
\<close>

definition send :: "Ambient \<Rightarrow> string \<Rightarrow> ChatController \<Rightarrow> ChatController" where
  "send amb txt c =
     (let corrId = uuidv4 amb 0;
          msg = (base_message corrId User txt (Date_now amb))
                  \<lparr>correlationId := Some corrId, isPending := Some True\<rparr>;
          s1 = addMessage msg (state c);
          loadingMessageId = uuidv4 amb 1;
          s2 = addMessage ((base_message loadingMessageId Assistant [] (Date_now amb))
                             \<lparr>isLoading := Some True\<rparr>) s1
      in c\<lparr>state := s2, service_calls := service_calls c @ [Send msg (getThreadId s2)]\<rparr>)"

text \<open>
  An asynchronous operation is modelled in two steps: what runs before the \<^verbatim>\<open>await\<close>, and
  what runs when the awaited promise settles (\<open>None\<close>: it resolved; \<open>Some e\<close>: it rejected
  with \<open>e\<close>). The second step returns the controller and what the operation itself rethrows.
\<close>

definition level_to_use :: "string option \<Rightarrow> Message option \<Rightarrow> string" where
  "level_to_use level toolMessage =
     (if truthy_str level then the level
      else case toolMessage of
             None \<Rightarrow> ''user''
           | Some tm \<Rightarrow> if truthy_str (defaultApprovalLevel tm)
                        then the (defaultApprovalLevel tm) else ''user'')"

definition error_text :: "thrown \<Rightarrow> string" where
  "error_text e = (case e of ErrorObject nm msg \<Rightarrow> msg | NotAnError \<Rightarrow> ''Unknown error'')"

definition approveToolCall_begin :: "string \<Rightarrow> string option \<Rightarrow> ChatController \<Rightarrow> ChatController" where
  "approveToolCall_begin tcid level c =
     (let levelToUse = level_to_use level (getToolMessageByCallId tcid (state c));
          s1 = updateApprovalRequest tcid True (state c);
          s2 = updateToolMessage tcid
                 [Set_approvalStatus (Some Approved), Set_approvalLevel (Some levelToUse),
                  Set_waitingForApproval (Some False)] s1
      in c\<lparr>state := s2,
            service_calls := service_calls c @
              [SendApproval tcid True (getThreadId s2) (Some levelToUse)]\<rparr>)"

definition approveToolCall_settle ::
  "string \<Rightarrow> thrown option \<Rightarrow> ChatController \<Rightarrow> ChatController \<times> thrown option" where
  "approveToolCall_settle tcid outcome c =
     (case outcome of
        None \<Rightarrow> (c, None)
      | Some e \<Rightarrow>
          (c\<lparr>state := updateToolMessage tcid
                [Set_approvalStatus None, Set_approvalLevel None,
                 Set_waitingForApproval (Some True),
                 Set_error (Some (''Failed to send approval: '' @ error_text e))] (state c)\<rparr>,
           Some e))"

definition approveToolCall ::
  "string \<Rightarrow> string option \<Rightarrow> thrown option \<Rightarrow> ChatController \<Rightarrow> ChatController \<times> thrown option" where
  "approveToolCall tcid level outcome c =
     approveToolCall_settle tcid outcome (approveToolCall_begin tcid level c)"

definition denyToolCall_begin :: "string \<Rightarrow> ChatController \<Rightarrow> ChatController" where
  "denyToolCall_begin tcid c =
     (let s1 = updateApprovalRequest tcid False (state c);
          s2 = updateToolMessage tcid
                 [Set_approvalStatus (Some Denied), Set_waitingForApproval (Some False),
                  Set_isStreaming (Some False), Set_status (Some Failure),
                  Set_toolOutput (Some (JStr ''Tool execution was denied by user''))] s1
      in c\<lparr>state := s2,
            service_calls := service_calls c @ [SendApproval tcid False (getThreadId s2) None]\<rparr>)"

definition denyToolCall_settle ::
  "string \<Rightarrow> thrown option \<Rightarrow> ChatController \<Rightarrow> ChatController \<times> thrown option" where
  "denyToolCall_settle tcid outcome c =
     (case outcome of
        None \<Rightarrow> (c, None)
      | Some e \<Rightarrow>
          (c\<lparr>state := updateToolMessage tcid
                [Set_error (Some (''Failed to send denial: '' @ error_text e))] (state c)\<rparr>,
           None))"

definition denyToolCall ::
  "string \<Rightarrow> thrown option \<Rightarrow> ChatController \<Rightarrow> ChatController \<times> thrown option" where
  "denyToolCall tcid outcome c = denyToolCall_settle tcid outcome (denyToolCall_begin tcid c)"

text \<open>The decisions of a batch are a \<^verbatim>\<open>Map\<close>: its entries in insertion order.\<close>

definition apply_decision :: "string \<times> bool \<times> string \<Rightarrow> ChatState \<Rightarrow> ChatState" where
  "apply_decision d s =
     (case d of (tcid, approved, level) \<Rightarrow>
        (let s1 = updateApprovalRequest tcid approved s in
         if approved
         then updateToolMessage tcid
                [Set_approvalStatus (Some Approved), Set_approvalLevel (Some level),
                 Set_waitingForApproval (Some False)] s1
         else updateToolMessage tcid
                [Set_approvalStatus (Some Denied), Set_waitingForApproval (Some False),
                 Set_isStreaming (Some False), Set_status (Some Failure),
                 Set_toolOutput (Some (JStr ''Tool execution was denied by user''))] s1))"

definition submitBatchApproval_begin ::
  "(string \<times> bool \<times> string) list \<Rightarrow> ChatController \<Rightarrow> ChatController" where
  "submitBatchApproval_begin decisions c =
     (let s1 = fold apply_decision decisions (state c)
      in c\<lparr>state := s1,
            service_calls := service_calls c @ [SendBatchApproval decisions (getThreadId s1)]\<rparr>)"

definition submitBatchApproval_settle ::
  "(string \<times> bool \<times> string) list \<Rightarrow> thrown option \<Rightarrow> ChatController
     \<Rightarrow> ChatController \<times> thrown option" where
  "submitBatchApproval_settle decisions outcome c =
     (case outcome of
        None \<Rightarrow> (c, None)
      | Some e \<Rightarrow>
          (c\<lparr>state := fold (\<lambda>d. updateToolMessage (fst d)
                [Set_approvalStatus None, Set_approvalLevel None,
                 Set_waitingForApproval (Some True),
                 Set_error (Some (''Failed to send approval: '' @ error_text e))])
              decisions (state c)\<rparr>,
           Some e))"

definition stop :: "ChatController \<Rightarrow> ChatController" where
  "stop c =
     (let s1 = stopAllStreaming (state c)
      in c\<lparr>state := s1, service_calls := service_calls c @ [Cancel (getThreadId s1)]\<rparr>)"

definition regenerate_begin :: "Ambient \<Rightarrow> string \<Rightarrow> ChatController \<Rightarrow> ChatController" where
  "regenerate_begin amb messageId c =
     (let s1 = removeMessagesAfter messageId (state c);
          s2 = addMessage ((base_message (uuidv4 amb 0) Assistant [] (Date_now amb))
                             \<lparr>isLoading := Some True\<rparr>) s1
      in c\<lparr>state := s2,
            service_calls := service_calls c @ [Regenerate messageId (getThreadId s2)]\<rparr>)"

definition regenerate_settle ::
  "thrown option \<Rightarrow> ChatController \<Rightarrow> ChatController \<times> thrown option" where
  "regenerate_settle outcome c =
     (case outcome of
        None \<Rightarrow> (c, None)
      | Some e \<Rightarrow> (c\<lparr>state := removeLoadingMessages (state c)\<rparr>, Some e))"

definition cancel :: "ChatController \<Rightarrow> ChatController" where
  "cancel c = c\<lparr>service_calls := service_calls c @ [Cancel (getThreadId (state c))]\<rparr>"

section \<open>Transport (RestChatService)\<close>

text \<open>
  The transport works on text: a string is a list of 8-bit characters, so the model covers
  text whose code units are below 256. The chunks of a response body are the pieces of
  text that the streaming \<^verbatim>\<open>TextDecoder\<close> returns for the successive reads.
\<close>

definition newline :: char where
  "newline = CHR 0x0A"

text \<open>\<^verbatim>\<open>String.prototype.split('\n')\<close>: the pieces between line feeds, never an empty list.\<close>

fun split_lines :: "string \<Rightarrow> string list" where
  "split_lines [] = [[]]"
| "split_lines (c # cs) =
     (case split_lines cs of
        [] \<Rightarrow> [[c]]
      | piece # pieces \<Rightarrow> if c = newline then [] # piece # pieces else (c # piece) # pieces)"

text \<open>
  \<^verbatim>\<open>String.prototype.trim\<close>: white space and line terminators are removed at both ends; below
  256 these are the code units 9 to 13, 32 and 160.
\<close>

definition js_whitespace :: "char \<Rightarrow> bool" where
  "js_whitespace c = ((of_char c :: nat) \<in> set [9, 10, 11, 12, 13, 32, 160])"

definition trim :: "string \<Rightarrow> string" where
  "trim s = rev (dropWhile js_whitespace (rev (dropWhile js_whitespace s)))"

text \<open>
  What the code takes from the JavaScript engine: \<^verbatim>\<open>JSON.parse\<close> (a \<^verbatim>\<open>SyntaxError\<close> with its
  message, or the value; an object lists each key once), the decimal form of a number,
  the string an array or an object converts to (\<open>None\<close> when the conversion throws), and
  the message of the \<^verbatim>\<open>TypeError\<close> that reading a property of \<^verbatim>\<open>null\<close>, calling something
  that is not a function, or a failed conversion throws.
\<close>

record Runtime =
  JSON_parse :: "string \<Rightarrow> string + json"
  Number_toString :: "rat \<Rightarrow> string"
  Object_toString :: "json \<Rightarrow> string option"
  TypeError_message :: string

definition TypeError :: "Runtime \<Rightarrow> thrown" where
  "TypeError rt = ErrorObject ''TypeError'' (TypeError_message rt)"

text \<open>The string a value becomes in a template literal or in \<^verbatim>\<open>new Error(value)\<close>.\<close>

fun ToString :: "Runtime \<Rightarrow> jsval \<Rightarrow> thrown + string" where
  "ToString rt None = Inr ''undefined''"
| "ToString rt (Some JNull) = Inr ''null''"
| "ToString rt (Some (JBool b)) = Inr (if b then ''true'' else ''false'')"
| "ToString rt (Some (JNum n)) = Inr (Number_toString rt n)"
| "ToString rt (Some (JStr s)) = Inr s"
| "ToString rt (Some (JArr xs)) =
     (case Object_toString rt (JArr xs) of None \<Rightarrow> Inl (TypeError rt) | Some s \<Rightarrow> Inr s)"
| "ToString rt (Some (JObj entries)) =
     (case Object_toString rt (JObj entries) of None \<Rightarrow> Inl (TypeError rt) | Some s \<Rightarrow> Inr s)"

text \<open>
  Reading a property \<^verbatim>\<open>value.name\<close> of a parsed JSON value, for the names the code reads
  (none of them is the name of a built-in property): an object yields its entry, every
  other value but \<^verbatim>\<open>null\<close> yields \<^verbatim>\<open>undefined\<close>. Reading a property of \<^verbatim>\<open>null\<close> throws a
  \<^verbatim>\<open>TypeError\<close>; each use below tests for \<open>JNull\<close> first.
\<close>

fun read_prop :: "json \<Rightarrow> string \<Rightarrow> jsval" where
  "read_prop (JObj entries) name = map_of entries name"
| "read_prop other name = None"

text \<open>\<^verbatim>\<open>value?.[0]\<close>: \<^verbatim>\<open>undefined\<close> for \<^verbatim>\<open>undefined\<close> and \<^verbatim>\<open>null\<close>, else the element of index 0.\<close>

fun optional_index0 :: "jsval \<Rightarrow> jsval" where
  "optional_index0 None = None"
| "optional_index0 (Some JNull) = None"
| "optional_index0 (Some (JArr xs)) = (case xs of [] \<Rightarrow> None | x # rest \<Rightarrow> Some x)"
| "optional_index0 (Some (JStr s)) = (case s of [] \<Rightarrow> None | c # rest \<Rightarrow> Some (JStr [c]))"
| "optional_index0 (Some (JObj entries)) = map_of entries ''0''"
| "optional_index0 (Some (JBool b)) = None"
| "optional_index0 (Some (JNum n)) = None"

text \<open>\<^verbatim>\<open>a || b\<close>.\<close>

definition or_else :: "jsval \<Rightarrow> jsval \<Rightarrow> jsval" where
  "or_else a b = (if truthy a then a else b)"

text \<open>
  The events as the transport builds them: object literals, whose properties come
  straight from the parsed payload and can be any value. \<open>RawEvent\<close> holds the \<^verbatim>\<open>type\<close> and
  the other properties in order; \<open>RawBatch\<close> is a \<^verbatim>\<open>batch_approval_request\<close> with the objects
  of its \<^verbatim>\<open>toolCalls\<close> and its \<^verbatim>\<open>options\<close>. The argument of \<^verbatim>\<open>new Date(...)\<close> stands for the date.
\<close>

datatype RawEvent =
    RawEvent string "(string \<times> jsval) list"
  | RawBatch "(string \<times> jsval) list list" jsval

datatype Callback = StreamEventCb RawEvent | ErrorCb thrown

text \<open>The outcome of \<^verbatim>\<open>handleStreamEvent\<close>.\<close>

datatype Handled = ThrowsTypeError | NoEvent | Event RawEvent

text \<open>
  The service holds at most one callback of each kind and an abort controller. The
  callbacks are the controller's handlers, which return normally; the model records the
  calls made on them.
\<close>

record RestChatService =
  errorCallback :: bool
  streamEventCallback :: bool
  abortController :: bool

definition call_streamEventCallback :: "RestChatService \<Rightarrow> RawEvent \<Rightarrow> Callback list" where
  "call_streamEventCallback svc ev = (if streamEventCallback svc then [StreamEventCb ev] else [])"

definition call_errorCallback :: "RestChatService \<Rightarrow> thrown \<Rightarrow> Callback list" where
  "call_errorCallback svc e = (if errorCallback svc then [ErrorCb e] else [])"

definition batch_tool_call :: "json \<Rightarrow> (string \<times> jsval) list" where
  "batch_tool_call tc =
     [(''toolCallId'', read_prop tc ''tool_call_id''),
      (''toolName'', read_prop tc ''tool_name''),
      (''toolInput'', read_prop tc ''tool_input''),
      (''message'', or_else (read_prop tc ''message'') (Some (JStr ''Approval required''))),
      (''riskLevel'', or_else (read_prop tc ''risk_level'') (Some (JStr ''moderate''))),
      (''affectedResources'', or_else (read_prop tc ''affected_resources'') (Some (JArr []))),
      (''reversible'', if read_prop tc ''reversible'' \<noteq> None then read_prop tc ''reversible''
                       else Some (JBool True)),
      (''estimatedImpact'', or_else (read_prop tc ''estimated_impact'') (Some (JStr []))),
      (''similarOperationsCount'', or_else (read_prop tc ''similar_operations_count'') (Some (JNum 0))),
      (''availableApprovalLevels'', or_else (read_prop tc ''available_approval_levels'')
                                      (Some (JArr [JStr ''once'', JStr ''session'']))),
      (''defaultApprovalLevel'', or_else (read_prop tc ''default_approval_level'') (Some (JStr ''once''))),
      (''operation'', read_prop tc ''operation''),
      (''endpoint'', read_prop tc ''endpoint''),
      (''method'', read_prop tc ''method'')]"

text \<open>
  \<^verbatim>\<open>handleStreamEvent\<close>: the error it throws, or the event it passes to the stream callback
  (\<open>None\<close> for an unknown type, which is only logged). The event is the argument of an
  optional call \<^verbatim>\<open>this.streamEventCallback?.(...)\<close>, so it is not built when no callback is
  set.
\<close>

definition handleStreamEvent ::
  "RestChatService \<Rightarrow> json \<Rightarrow> Handled" where
  "handleStreamEvent svc eventData =
     (if eventData = JNull then ThrowsTypeError
      else
        (let ty = read_prop eventData ''type'' in
          if \<not> streamEventCallback svc then NoEvent
          else if ty = Some (JStr ''user_message_confirmed'') then
            Event (RawEvent ''user_message_confirmed''
              [(''messageId'', read_prop eventData ''message_id''),
               (''correlationId'', read_prop eventData ''correlation_id''),
               (''content'', read_prop eventData ''content''),
               (''timestamp'', read_prop eventData ''timestamp'')])
          else if ty = Some (JStr ''assistant_start'') then
            Event (RawEvent ''assistant_start''
              [(''messageId'', read_prop eventData ''message_id''),
               (''timestamp'', read_prop eventData ''timestamp'')])
          else if ty = Some (JStr ''assistant_token'') then
            Event (RawEvent ''assistant_token''
              [(''messageId'', read_prop eventData ''message_id''),
               (''token'', read_prop eventData ''content'')])
          else if ty = Some (JStr ''assistant_complete'') then
            Event (RawEvent ''assistant_complete''
              [(''messageId'', read_prop eventData ''message_id'')])
          else if ty = Some (JStr ''tool_start'') then
            Event (RawEvent ''tool_start''
              [(''toolCallId'', read_prop eventData ''tool_call_id''),
               (''toolInput'', read_prop eventData ''tool_input''),
               (''toolName'', read_prop eventData ''tool_name'')])
          else if ty = Some (JStr ''tool_token'') then
            Event (RawEvent ''tool_token''
              [(''toolCallId'', read_prop eventData ''tool_call_id''),
               (''token'', read_prop eventData ''content'')])
          else if ty = Some (JStr ''tool_complete'') then
            Event (RawEvent ''tool_complete''
              [(''toolCallId'', read_prop eventData ''tool_call_id''),
               (''toolName'', read_prop eventData ''tool_name''),
               (''toolOutput'', read_prop eventData ''tool_output''),
               (''status'', read_prop eventData ''status'')])
          else if ty = Some (JStr ''error'') then
            Event (RawEvent ''error''
              [(''messageId'', read_prop eventData ''for_message_id''),
               (''error'', or_else (read_prop eventData ''error_message'') (read_prop eventData ''error''))])
          else if ty = Some (JStr ''approval_request'') then
            Event (RawEvent ''approval_request''
              [(''toolCallId'', read_prop eventData ''tool_call_id''),
               (''toolName'', read_prop eventData ''tool_name''),
               (''toolInput'', read_prop eventData ''tool_input''),
               (''message'', or_else (read_prop eventData ''message'') (Some (JStr ''Approval required''))),
               (''riskLevel'', or_else (read_prop eventData ''risk_level'') (Some (JStr ''medium''))),
               (''affectedResources'', or_else (read_prop eventData ''affected_resources'') (Some (JArr []))),
               (''reversible'', if read_prop eventData ''reversible'' \<noteq> None
                                then read_prop eventData ''reversible'' else Some (JBool True)),
               (''estimatedImpact'', or_else (read_prop eventData ''estimated_impact'') (Some (JStr []))),
               (''similarOperationsCount'',
                  or_else (read_prop eventData ''similar_operations_count'') (Some (JNum 0))),
               (''availableApprovalLevels'',
                  or_else (read_prop eventData ''available_approval_levels'') (Some (JArr [JStr ''user'']))),
               (''defaultApprovalLevel'',
                  or_else (read_prop eventData ''default_approval_level'') (Some (JStr ''user'')))])
          else if ty = Some (JStr ''batch_approval_request'') then
            (case read_prop eventData ''tool_calls'' of
               Some (JArr tcs) \<Rightarrow>
                 if JNull \<in> set tcs then ThrowsTypeError
                 else Event (RawBatch (map batch_tool_call tcs)
                                  (or_else (read_prop eventData ''options'') (Some (JArr []))))
             | notAnArray \<Rightarrow> ThrowsTypeError)
          else NoEvent))"

text \<open>\<^verbatim>\<open>Error.prototype.toString\<close> for an error with the given name and message.\<close>

definition Error_toString :: "string \<Rightarrow> string \<Rightarrow> string" where
  "Error_toString nm msg =
     (if msg = [] then nm else if nm = [] then msg else nm @ '': '' @ msg)"

text \<open>
  The \<^verbatim>\<open>for\<close> loop over the complete lines of one read. The \<^verbatim>\<open>break\<close> at a \<^verbatim>\<open>[DONE]\<close> payload
  leaves this loop: the remaining lines of the read are not looked at.
\<close>

fun process_lines :: "Runtime \<Rightarrow> RestChatService \<Rightarrow> string list \<Rightarrow> Callback list" where
  "process_lines rt svc [] = []"
| "process_lines rt svc (line # rest) =
     (if startsWith line ''data: '' then
        (if trim (drop 6 line) = ''[DONE]'' then []
         else
           (case JSON_parse rt (drop 6 line) of
              Inl syntaxError \<Rightarrow>
                call_errorCallback svc
                  (ErrorObject ''Error'' (''Failed to parse event data: '' @
                     Error_toString ''SyntaxError'' syntaxError))
                @ process_lines rt svc rest
            | Inr eventData \<Rightarrow>
                (case handleStreamEvent svc eventData of
                   ThrowsTypeError \<Rightarrow>
                     call_errorCallback svc
                       (ErrorObject ''Error'' (''Failed to parse event data: '' @
                          Error_toString ''TypeError'' (TypeError_message rt)))
                     @ process_lines rt svc rest
                 | NoEvent \<Rightarrow> process_lines rt svc rest
                 | Event ev \<Rightarrow> call_streamEventCallback svc ev @ process_lines rt svc rest)))
      else process_lines rt svc rest)"

text \<open>
  The \<^verbatim>\<open>while (true)\<close> loop of \<^verbatim>\<open>processStream\<close>. A body is the chunks its reads deliver and
  how the read after the last chunk ends: \<open>None\<close> when it reports \<^verbatim>\<open>done\<close>, \<open>Some e\<close> when it
  rejects with \<open>e\<close> (an aborted request rejects it with an \<^verbatim>\<open>AbortError\<close>).
\<close>

type_synonym ResponseBody = "string list \<times> thrown option"

fun read_loop ::
  "Runtime \<Rightarrow> RestChatService \<Rightarrow> string \<Rightarrow> string list \<Rightarrow> thrown option \<Rightarrow> Callback list" where
  "read_loop rt svc buffer [] ending =
     (case ending of None \<Rightarrow> [] | Some e \<Rightarrow> call_errorCallback svc e)"
| "read_loop rt svc buffer (chunk # chunks) ending =
     (let lines = split_lines (buffer @ chunk)
      in process_lines rt svc (butlast lines) @ read_loop rt svc (last lines) chunks ending)"

definition processStream :: "Runtime \<Rightarrow> RestChatService \<Rightarrow> ResponseBody \<Rightarrow> Callback list" where
  "processStream rt svc body = read_loop rt svc [] (fst body) (snd body)"

text \<open>
  What \<^verbatim>\<open>fetch\<close> delivers: a rejection, or a response with its status, status text, the
  \<^verbatim>\<open>X-Thread-ID\<close> header (if present), what \<^verbatim>\<open>res.json()\<close> settles to, and the body (if any).
\<close>

record Response =
  http_status :: nat
  statusText :: string
  x_thread_id :: "string option"
  json_body :: "thrown + json"
  body :: "ResponseBody option"

datatype FetchResult = FetchRejects thrown | FetchResponse Response

definition ok :: "Response \<Rightarrow> bool" where
  "ok res = (200 \<le> http_status res \<and> http_status res \<le> 299)"

text \<open>
  The message computed for a response that is not ok; \<open>Inl\<close> when building the \<^verbatim>\<open>Error\<close>
  throws. Whatever is thrown inside the inner \<^verbatim>\<open>try\<close> leaves the status line in place.
\<close>

definition status_line :: "Runtime \<Rightarrow> Response \<Rightarrow> string" where
  "status_line rt res =
     ''HTTP '' @ Number_toString rt (of_nat (http_status res)) @ '': '' @ statusText res"

definition error_message_of :: "Runtime \<Rightarrow> Response \<Rightarrow> string \<Rightarrow> thrown + string" where
  "error_message_of rt res fallback =
     (case json_body res of
        Inl e \<Rightarrow> Inr fallback
      | Inr errorData \<Rightarrow>
          if http_status res = 422 \<and> errorData \<noteq> JNull
             \<and> truthy (optional_index0 (read_prop errorData ''detail'')) then
            (case optional_index0 (read_prop errorData ''detail'') of
               None \<Rightarrow> Inr fallback
             | Some first \<Rightarrow>
                (case (ToString rt (read_prop first ''msg''), ToString rt (read_prop first ''field'')) of
                   (Inr m, Inr f) \<Rightarrow> Inr (''Validation error: '' @ m @ '' ('' @ f @ '')'')
                 | other \<Rightarrow> Inr fallback))
          else if errorData = JNull then Inr fallback
          else ToString rt
                 (or_else (or_else (or_else (read_prop errorData ''error'') (read_prop errorData ''message''))
                             (Some errorData))
                    (Some (JStr fallback))))"

definition handleStreamingResponse ::
  "Runtime \<Rightarrow> RestChatService \<Rightarrow> string option \<Rightarrow> FetchResult \<Rightarrow> Callback list" where
  "handleStreamingResponse rt svc thread fetched =
     (case fetched of
        FetchRejects e \<Rightarrow>
          (case e of
             ErrorObject nm msg \<Rightarrow> if nm = ''AbortError'' then [] else call_errorCallback svc e
           | NotAnError \<Rightarrow> call_errorCallback svc e)
      | FetchResponse res \<Rightarrow>
          (if truthy_str thread \<and> truthy_str (x_thread_id res) \<and> x_thread_id res \<noteq> thread
           then call_streamEventCallback svc
                  (RawEvent ''thread_sync'' [(''threadId'', map_option JStr (x_thread_id res))])
           else [])
          @ (if \<not> ok res then
               (case error_message_of rt res (status_line rt res) of
                  Inl e \<Rightarrow> call_errorCallback svc e
                | Inr errorMessage \<Rightarrow> call_errorCallback svc (ErrorObject ''Error'' errorMessage))
             else
               (case body res of
                  None \<Rightarrow> call_errorCallback svc (ErrorObject ''Error'' ''No response body'')
                | Some reader \<Rightarrow> processStream rt svc reader)))"

text \<open>
  \<^verbatim>\<open>sendApproval\<close> of the REST transport: it awaits the headers of the authentication
  strategy (\<open>Some e\<close> when that rejects with \<open>e\<close>) and returns the promise of
  \<^verbatim>\<open>handleStreamingResponse\<close>, called without a thread id. The result is the callbacks made
  and how the returned promise settles (\<open>None\<close>: it resolves). The request body is not
  part of the model; what \<^verbatim>\<open>fetch\<close> delivers is an input.
\<close>

definition sendApproval ::
  "Runtime \<Rightarrow> RestChatService \<Rightarrow> thrown option \<Rightarrow> FetchResult \<Rightarrow> Callback list \<times> thrown option" where
  "sendApproval rt svc headers fetched =
     (case headers of
        Some e \<Rightarrow> ([], Some e)
      | None \<Rightarrow> (handleStreamingResponse rt svc None fetched, None))"

section \<open>A running example\<close>

text \<open>
  A fresh controller on thread \<open>t0\<close> whose user sends "Hello": the transcript then holds the
  pending user message \<open>u0\<close> and the loading placeholder \<open>u1\<close>.
\<close>

definition ex_amb :: Ambient where
  "ex_amb = \<lparr> uuidv4 = (\<lambda>n. if n = 0 then ''u0'' else ''u1''), Date_now = 5,
              JSON_stringify = (\<lambda>j. ''{}'') \<rparr>"

text \<open>The environment of a later operation, which draws the id \<open>u2\<close>.\<close>

definition ex_amb2 :: Ambient where
  "ex_amb2 = \<lparr> uuidv4 = (\<lambda>n. ''u2''), Date_now = 6, JSON_stringify = (\<lambda>j. ''{}'') \<rparr>"

definition ex_sent :: ChatController where
  "ex_sent = send ex_amb ''Hello'' (new_ChatController (new_ChatState ''t0'' 0))"

definition ex_metadata :: ApprovalMetadata where
  "ex_metadata = \<lparr> md_riskLevel = ''high'', md_affectedResources = [], md_reversible = True,
      md_estimatedImpact = [], md_similarOperationsCount = 0,
      md_availableApprovalLevels = [''user''], md_defaultApprovalLevel = ''user'' \<rparr>"

text \<open>The same transcript after an approval request for the tool call \<open>t1\<close>.\<close>

definition ex_waiting :: ChatController where
  "ex_waiting = onStreamEvent ex_amb (approval_request ''t1'' ''lookup'' None ''ok?'' ex_metadata) ex_sent"

definition ex_tool :: Message where
  "ex_tool = (base_message ''t1'' Tool [] 5)
     \<lparr>toolCallId := Some ''t1'', toolName := Some ''lookup'', isStreaming := Some False,
      waitingForApproval := Some True, approvalMessage := Some ''ok?'',
      riskLevel := Some ''high'', affectedResources := Some [], reversible := Some True,
      estimatedImpact := Some [], similarOperationsCount := Some 0,
      availableApprovalLevels := Some [''user''], defaultApprovalLevel := Some ''user''\<rparr>"

text \<open>
  A transport with both callbacks set, on an engine whose \<^verbatim>\<open>JSON.parse\<close> reads the payload
  \<^verbatim>\<open>{"type":"assistant_token","message_id":"a1","content":"late"}\<close> and rejects the other
  strings; a response whose body is aborted after one chunk; and a response with status
  422 and a validation detail.
\<close>

definition quoted :: "string \<Rightarrow> string" where
  "quoted s = CHR 0x22 # s @ [CHR 0x22]"

definition ex_payload :: string where
  "ex_payload = ''{'' @ quoted ''type'' @ '':'' @ quoted ''assistant_token'' @ '','' @
     quoted ''message_id'' @ '':'' @ quoted ''a1'' @ '','' @
     quoted ''content'' @ '':'' @ quoted ''late'' @ ''}''"

definition ex_rt :: Runtime where
  "ex_rt = \<lparr> JSON_parse = (\<lambda>s. if s = ex_payload
                 then Inr (JObj [(''type'', JStr ''assistant_token''), (''message_id'', JStr ''a1''),
                                 (''content'', JStr ''late'')])
                 else Inl ''Unexpected token''),
             Number_toString = (\<lambda>n. if n = 422 then ''422'' else ''500''),
             Object_toString = (\<lambda>j. Some ''[object Object]''),
             TypeError_message = ''Cannot read properties of null'' \<rparr>"

definition ex_svc :: RestChatService where
  "ex_svc = \<lparr> errorCallback = True, streamEventCallback = True, abortController = True \<rparr>"


definition ex_aborted_read :: Response where
  "ex_aborted_read = \<lparr> http_status = 200, statusText = ''OK'', x_thread_id = None,
     json_body = Inl (ErrorObject ''TypeError'' ''body stream already read''),
     body = Some ([''data: '' @ ex_payload @ [newline]],
                  Some (ErrorObject ''AbortError'' ''BodyStreamBuffer was aborted'')) \<rparr>"

definition ex_invalid :: Response where
  "ex_invalid = \<lparr> http_status = 422, statusText = ''Unprocessable Entity'', x_thread_id = None,
     json_body = Inr (JObj [(''detail'',
        JArr [JObj [(''msg'', JStr ''field required''), (''field'', JStr ''message'')]])]),
     body = None \<rparr>"

section \<open>Observations used in the statements\<close>

text \<open>The errors passed to the error callback, in order.\<close>

fun error_calls :: "Callback list \<Rightarrow> thrown list" where
  "error_calls [] = []"
| "error_calls (StreamEventCb ev # rest) = error_calls rest"
| "error_calls (ErrorCb e # rest) = e # error_calls rest"

text \<open>The ids of the loading placeholders in the transcript, in order.\<close>

definition loading_ids :: "ChatState \<Rightarrow> string list" where
  "loading_ids s = map id' (filter (\<lambda>msg. truthy_bool (isLoading msg)) (messages s))"

text \<open>
  The in-place changes that \<^verbatim>\<open>addApprovalRequest\<close>, \<^verbatim>\<open>removeApprovalRequest\<close> and the optimistic
  step of \<^verbatim>\<open>approveToolCall\<close> make to the tool message they find.
\<close>

definition on_approval_request :: "string \<Rightarrow> ApprovalMetadata \<Rightarrow> Message \<Rightarrow> Message" where
  "on_approval_request approvalMsg metadata m =
     m\<lparr>waitingForApproval := Some True,
       approvalStatus := None,
       approvalMessage := Some approvalMsg,
       riskLevel := Some (md_riskLevel metadata),
       affectedResources := Some (md_affectedResources metadata),
       reversible := Some (md_reversible metadata),
       estimatedImpact := Some (md_estimatedImpact metadata),
       similarOperationsCount := Some (md_similarOperationsCount metadata),
       availableApprovalLevels := Some (md_availableApprovalLevels metadata),
       defaultApprovalLevel := Some (md_defaultApprovalLevel metadata)\<rparr>"

definition on_tool_start :: "Message \<Rightarrow> Message" where
  "on_tool_start m =
     (if approvalStatus m = Some Approved
      then m\<lparr>waitingForApproval := Some False, isStreaming := Some True\<rparr>
      else m\<lparr>waitingForApproval := Some False\<rparr>)"

definition on_approve :: "string \<Rightarrow> Message \<Rightarrow> Message" where
  "on_approve lvl m =
     Object_assign (m\<lparr>approvalStatus := Some Approved\<rparr>)
       [Set_approvalStatus (Some Approved), Set_approvalLevel (Some lvl),
        Set_waitingForApproval (Some False)]"

text \<open>
  Whether an event is a \<^verbatim>\<open>tool_start\<close> for the given tool name, and the reading of the
  controller's counter for a tool name as a number (no entry yet is 0).
\<close>

fun starts_tool :: "string \<Rightarrow> StreamEvent \<Rightarrow> bool" where
  "starts_tool tname (tool_start tcid tn tin) = (tn = tname)"
| "starts_tool tname other = False"

definition count_is :: "ChatController \<Rightarrow> string \<Rightarrow> nat \<Rightarrow> bool" where
  "count_is c tname k =
     (toolInstanceCounts c tname = None \<and> k = 0 \<or> toolInstanceCounts c tname = Some (Num k))"

text \<open>
  The id discipline of tool messages: a tool message carries its \<^verbatim>\<open>toolCallId\<close> as its id
  and is not a pending user message.
\<close>

definition keyed_message :: "Message \<Rightarrow> bool" where
  "keyed_message m = (role m \<noteq> Tool \<or> toolCallId m = Some (id' m) \<and> isPending m \<noteq> Some True)"

definition tool_ids_keyed :: "ChatState \<Rightarrow> bool" where
  "tool_ids_keyed s = list_all keyed_message (messages s)"

section \<open>Lists: finding and updating the first match\<close>

lemma find_None_conv: "(find P xs = None) = (\<forall>x\<in>set xs. \<not> P x)"
  by (induction xs) auto

lemma list_ex_find: "list_ex P xs = (find P xs \<noteq> None)"
  by (induction xs) auto

lemma findIndex_Some_less: "findIndex P xs = Some i \<Longrightarrow> i < length xs \<and> P (xs ! i)"
  by (induction xs arbitrary: i) (auto split: if_splits)

lemma find_update_at: "i < length xs \<Longrightarrow> P y \<Longrightarrow> find P (xs[i := y]) \<noteq> None"
  by (auto simp: find_None_conv set_update_memI)

lemma length_update_found [simp]: "length (update_found P f xs) = length xs"
  by (induction xs) auto

lemma map_update_found:
  "(\<And>x. g (f x) = g x) \<Longrightarrow> map g (update_found P f xs) = map g xs"
  by (induction xs) auto

lemma find_update_found:
  "(\<And>x. P (f x) = P x) \<Longrightarrow> find P (update_found P f xs) = map_option f (find P xs)"
  by (induction xs) auto

lemma find_append_last: "find P xs = None \<Longrightarrow> P x \<Longrightarrow> find P (xs @ [x]) = Some x"
  by (induction xs) (auto split: if_splits)


lemma assign_field_keeps:
  "id' (assign_field u m) = id' m" "role (assign_field u m) = role m"
  "toolCallId (assign_field u m) = toolCallId m" "isLoading (assign_field u m) = isLoading m"
  by (cases u; simp)+

lemma Object_assign_keeps:
  "id' (Object_assign m us) = id' m \<and> role (Object_assign m us) = role m
   \<and> toolCallId (Object_assign m us) = toolCallId m
   \<and> isLoading (Object_assign m us) = isLoading m"
  unfolding Object_assign_def
  by (induction us arbitrary: m) (simp_all add: assign_field_keeps)

lemma is_tool_call_Object_assign [simp]:
  "is_tool_call t (Object_assign m us) = is_tool_call t m"
  by (simp add: is_tool_call_def Object_assign_keeps)

lemma ex_sent_messages:
  "messages (state ex_sent) =
     [(base_message ''u0'' User ''Hello'' 5)\<lparr>correlationId := Some ''u0'', isPending := Some True\<rparr>,
      (base_message ''u1'' Assistant [] 5)\<lparr>isLoading := Some True\<rparr>]"
  by (simp add: ex_sent_def send_def ex_amb_def new_ChatController_def new_ChatState_def
      addMessage_def emit_def base_message_def Let_def)

lemma ex_waiting_tool: "getToolMessageByCallId ''t1'' (state ex_waiting) = Some ex_tool"
  by (simp add: ex_waiting_def ex_tool_def addApprovalRequest_def getToolMessageByCallId_def
      ex_sent_messages is_tool_call_def addToolMessage_def emit_def base_message_def
      ex_amb_def ex_metadata_def)

lemma ex_waiting_thread: "threadId (state ex_waiting) = ''t0''"
  by (simp add: ex_waiting_def addApprovalRequest_def getToolMessageByCallId_def
      ex_sent_messages is_tool_call_def addToolMessage_def emit_def base_message_def,
      simp add: ex_sent_def send_def Let_def addMessage_def emit_def new_ChatController_def new_ChatState_def)

lemma ex_waiting_id: "getMessage ''t1'' (state ex_waiting) \<noteq> None"
  by (simp add: ex_waiting_def addApprovalRequest_def getToolMessageByCallId_def getMessage_def
      ex_sent_messages is_tool_call_def addToolMessage_def emit_def base_message_def)

section \<open>Token streaming\<close>





section \<open>Duplicate delivery\<close>

text \<open>
  Claim C7. Adding a message whose id already occurs in the transcript, through
  \<^verbatim>\<open>addMessage\<close> or \<^verbatim>\<open>addToolMessage\<close>, returns the state as it was: the same messages in the
  same order, and no subscriber is called (the record of calls is part of the state).
\<close>

theorem duplicate_add_is_noop:
  assumes "id' m \<in> id' ` set (messages s)"
  shows "addMessage m s = s \<and> addToolMessage m s = s"
proof -
  have "list_ex (\<lambda>existing. id' existing = id' m) (messages s)"
    using assms by (auto simp: list_ex_iff)
  then show ?thesis by (simp add: addMessage_def addToolMessage_def)
qed

theorem duplicate_add_is_noop_witness:
  "addMessage (base_message ''u1'' Assistant ''again'' 7) (state ex_sent) = state ex_sent
   \<and> addToolMessage (base_message ''u1'' Tool [] 7) (state ex_sent) = state ex_sent"
proof -
  have h1: "id' (base_message ''u1'' Assistant ''again'' 7) \<in> id' ` set (messages (state ex_sent))"
    by (simp add: ex_sent_messages base_message_def)
  have h2: "id' (base_message ''u1'' Tool [] 7) \<in> id' ` set (messages (state ex_sent))"
    by (simp add: ex_sent_messages base_message_def)
  from duplicate_add_is_noop [OF h1] duplicate_add_is_noop [OF h2] show ?thesis by simp
qed

text \<open>
  Claim C8. \<^verbatim>\<open>syncUserMessage\<close> is idempotent: a second call with the same arguments
  returns the state the first call left (same transcript, no further notification). No
  call changes the number of messages. When no message carries the backend id and a
  pending message with the correlation id is found at index \<open>i\<close>, the first call replaces
  that message's id by the backend id and clears \<^verbatim>\<open>isPending\<close>; when no pending message has
  the correlation id, the call leaves the state as it was.
\<close>

theorem syncUserMessage_idempotent:
  "syncUserMessage b c (syncUserMessage b c s) = syncUserMessage b c s
   \<and> length (messages (syncUserMessage b c s)) = length (messages s)
   \<and> (getMessage b s = None \<longrightarrow>
        findIndex (\<lambda>msg. correlationId msg = Some c \<and> isPending msg = Some True) (messages s)
          = Some i \<longrightarrow>
        messages (syncUserMessage b c s) =
          (messages s)[i := (messages s ! i)\<lparr>id' := b, isPending := Some False\<rparr>])
   \<and> (findIndex (\<lambda>msg. correlationId msg = Some c \<and> isPending msg = Some True) (messages s)
          = None \<longrightarrow>
        syncUserMessage b c s = s)"
proof -
  let ?P = "\<lambda>msg. correlationId msg = Some c \<and> isPending msg = Some True"
  have idem: "syncUserMessage b c (syncUserMessage b c s) = syncUserMessage b c s"
  proof (cases "find (\<lambda>msg. id' msg = b) (messages s)")
    case (Some e)
    then show ?thesis by (simp add: syncUserMessage_def)
  next
    case None
    show ?thesis
    proof (cases "findIndex ?P (messages s)")
      case n: None
      with None show ?thesis by (simp add: syncUserMessage_def)
    next
      case (Some j)
      then have j: "j < length (messages s)" by (simp add: findIndex_Some_less)
      let ?y = "(messages s ! j)\<lparr>id' := b, isPending := Some False\<rparr>"
      have "find (\<lambda>msg. id' msg = b) ((messages s)[j := ?y]) \<noteq> None"
        using j by (intro find_update_at) simp_all
      then obtain e where "find (\<lambda>msg. id' msg = b) ((messages s)[j := ?y]) = Some e"
        by blast
      with None Some show ?thesis
        by (simp add: syncUserMessage_def emit_def)
    qed
  qed
  have len: "length (messages (syncUserMessage b c s)) = length (messages s)"
    by (simp add: syncUserMessage_def emit_def split: option.splits)
  have first: "getMessage b s = None \<longrightarrow> findIndex ?P (messages s) = Some i \<longrightarrow>
        messages (syncUserMessage b c s) =
          (messages s)[i := (messages s ! i)\<lparr>id' := b, isPending := Some False\<rparr>]"
    by (simp add: syncUserMessage_def getMessage_def emit_def)
  have dropped: "findIndex ?P (messages s) = None \<longrightarrow> syncUserMessage b c s = s"
    by (simp add: syncUserMessage_def split: option.splits)
  from idem len first dropped show ?thesis by blast
qed

theorem syncUserMessage_idempotent_witness:
  "syncUserMessage ''m1'' ''u0'' (syncUserMessage ''m1'' ''u0'' (state ex_sent))
     = syncUserMessage ''m1'' ''u0'' (state ex_sent)
   \<and> messages (syncUserMessage ''m1'' ''u0'' (state ex_sent)) =
       [(base_message ''m1'' User ''Hello'' 5)\<lparr>correlationId := Some ''u0'', isPending := Some False\<rparr>,
        (base_message ''u1'' Assistant [] 5)\<lparr>isLoading := Some True\<rparr>]
   \<and> syncUserMessage ''m1'' ''other'' (state ex_sent) = state ex_sent"
proof -
  have h1: "getMessage ''m1'' (state ex_sent) = None"
    by (simp add: getMessage_def ex_sent_messages base_message_def)
  have h2: "findIndex (\<lambda>msg. correlationId msg = Some ''u0'' \<and> isPending msg = Some True)
              (messages (state ex_sent)) = Some 0"
    by (simp add: ex_sent_messages base_message_def)
  have h3: "findIndex (\<lambda>msg. correlationId msg = Some ''other'' \<and> isPending msg = Some True)
              (messages (state ex_sent)) = None"
    by (simp add: ex_sent_messages base_message_def)
  from syncUserMessage_idempotent [of "''m1''" "''u0''" "state ex_sent" 0] h1 h2
  have a: "syncUserMessage ''m1'' ''u0'' (syncUserMessage ''m1'' ''u0'' (state ex_sent))
             = syncUserMessage ''m1'' ''u0'' (state ex_sent)"
    and b: "messages (syncUserMessage ''m1'' ''u0'' (state ex_sent)) =
       (messages (state ex_sent))[0 := (messages (state ex_sent) ! 0)
          \<lparr>id' := ''m1'', isPending := Some False\<rparr>]"
    by blast+
  from syncUserMessage_idempotent [of "''m1''" "''other''" "state ex_sent" 0] h3
  have c: "syncUserMessage ''m1'' ''other'' (state ex_sent) = state ex_sent"
    by blast
  from b have "messages (syncUserMessage ''m1'' ''u0'' (state ex_sent)) =
       [(base_message ''m1'' User ''Hello'' 5)\<lparr>correlationId := Some ''u0'', isPending := Some False\<rparr>,
        (base_message ''u1'' Assistant [] 5)\<lparr>isLoading := Some True\<rparr>]"
    by (simp add: ex_sent_messages base_message_def)
  with a c show ?thesis by simp
qed

section \<open>Subscription\<close>

text \<open>
  Claim C10. \<^verbatim>\<open>subscribe(fn)\<close> registers \<open>fn\<close> and calls it once, within the call of
  \<^verbatim>\<open>subscribe\<close>, with the thread id and the messages the state holds at that moment; the
  state's thread id and messages are not changed by subscribing.
\<close>

theorem subscribe_delivers_current_snapshot:
  "calls (subscribe fn s) = calls s @ [(fn, Snapshot (threadId s) (messages s))]
   \<and> subscribers (subscribe fn s) = subscribers s @ [fn]
   \<and> messages (subscribe fn s) = messages s
   \<and> threadId (subscribe fn s) = threadId s"
  by (simp add: subscribe_def)

section \<open>The loading placeholder\<close>

lemma filter_update_found:
  "(\<And>x. Q (f x) = Q x) \<Longrightarrow> (\<And>x. g (f x) = g x) \<Longrightarrow>
   map g (filter Q (update_found P f xs)) = map g (filter Q xs)"
  by (induction xs) auto

lemma filter_map_keeps:
  "(\<And>x. Q (f x) = Q x) \<Longrightarrow> (\<And>x. g (f x) = g x) \<Longrightarrow>
   map g (filter Q (map f xs)) = map g (filter Q xs)"
  by (induction xs) auto

lemma loading_ids_addMessage:
  "\<not> truthy_bool (isLoading m) \<Longrightarrow> loading_ids (addMessage m s) = loading_ids s"
  by (simp add: loading_ids_def addMessage_def emit_def)

lemma loading_ids_addToolMessage:
  "\<not> truthy_bool (isLoading m) \<Longrightarrow> loading_ids (addToolMessage m s) = loading_ids s"
  by (simp add: loading_ids_def addToolMessage_def emit_def)

lemma loading_ids_removeLoadingMessages: "loading_ids (removeLoadingMessages s) = []"
  by (simp add: loading_ids_def removeLoadingMessages_def emit_def)

lemma loading_ids_removeApprovalRequest:
  "loading_ids (removeApprovalRequest t s) = loading_ids s"
  by (simp add: loading_ids_def removeApprovalRequest_def emit_def filter_update_found)

lemma loading_ids_stopAllStreaming: "loading_ids (stopAllStreaming s) = loading_ids s"
  by (simp add: loading_ids_def stopAllStreaming_def emit_def Let_def filter_map_keeps)

lemma includes_str_nonempty: "includes_str s (p # ps) \<Longrightarrow> s \<noteq> []"
  by (cases s) auto

text \<open>
  Claim C3, as the code has it. When the two ids drawn by \<^verbatim>\<open>send\<close> are new and differ, \<^verbatim>\<open>send\<close>
  appends the pending user message and the loading placeholder. An \<^verbatim>\<open>assistant_start\<close>
  event leaves no loading placeholder in the transcript, and neither does the transport's
  error callback; for the abort signal of a cancelled stream the callback removes the
  placeholders and adds no error message. A \<^verbatim>\<open>tool_start\<close> event and \<^verbatim>\<open>stop()\<close> leave the
  loading placeholders where they are.
\<close>

theorem loading_placeholder_removal:
  "(getMessage (uuidv4 amb 0) (state c) = None \<longrightarrow>
    getMessage (uuidv4 amb 1) (state c) = None \<longrightarrow>
    uuidv4 amb 0 \<noteq> uuidv4 amb 1 \<longrightarrow>
      messages (state (send amb txt c)) = messages (state c) @
        [(base_message (uuidv4 amb 0) User txt (Date_now amb))
           \<lparr>correlationId := Some (uuidv4 amb 0), isPending := Some True\<rparr>,
         (base_message (uuidv4 amb 1) Assistant [] (Date_now amb))\<lparr>isLoading := Some True\<rparr>])
   \<and> loading_ids (state (onStreamEvent amb (assistant_start mid ts) c)) = []
   \<and> loading_ids (state (onError amb err c)) = []
   \<and> (includes_str msg ''BodyStreamBuffer was aborted'' \<longrightarrow>
        messages (state (onError amb (ErrorObject nm msg) c))
          = filter (\<lambda>m. \<not> truthy_bool (isLoading m)) (messages (state c)))
   \<and> loading_ids (state (onStreamEvent amb (tool_start tcid tname tin) c)) = loading_ids (state c)
   \<and> loading_ids (state (stop c)) = loading_ids (state c)"
proof -
  have sent: "getMessage (uuidv4 amb 0) (state c) = None \<longrightarrow>
    getMessage (uuidv4 amb 1) (state c) = None \<longrightarrow>
    uuidv4 amb 0 \<noteq> uuidv4 amb 1 \<longrightarrow>
      messages (state (send amb txt c)) = messages (state c) @
        [(base_message (uuidv4 amb 0) User txt (Date_now amb))
           \<lparr>correlationId := Some (uuidv4 amb 0), isPending := Some True\<rparr>,
         (base_message (uuidv4 amb 1) Assistant [] (Date_now amb))\<lparr>isLoading := Some True\<rparr>]"
    by (auto simp: send_def Let_def addMessage_def emit_def getMessage_def find_None_conv
        list_ex_iff base_message_def)
  have start: "loading_ids (state (onStreamEvent amb (assistant_start mid ts) c)) = []"
    by (simp add: loading_ids_addMessage loading_ids_removeLoadingMessages
        truthy_bool_def base_message_def)
  have err: "loading_ids (state (onError amb err c)) = []"
    by (cases err)
      (simp_all add: onError_def Let_def loading_ids_addMessage
        loading_ids_removeLoadingMessages truthy_bool_def base_message_def)
  have aborted: "includes_str msg ''BodyStreamBuffer was aborted'' \<longrightarrow>
        messages (state (onError amb (ErrorObject nm msg) c))
          = filter (\<lambda>m. \<not> truthy_bool (isLoading m)) (messages (state c))"
    using includes_str_nonempty [of msg]
    by (auto simp: onError_def Let_def removeLoadingMessages_def emit_def)
  have tool: "loading_ids (state (onStreamEvent amb (tool_start tcid tname tin) c))
                = loading_ids (state c)"
    by (simp add: Let_def split: prod.splits)
      (simp add: loading_ids_addToolMessage loading_ids_removeApprovalRequest
        truthy_bool_def base_message_def)
  have stopped: "loading_ids (state (stop c)) = loading_ids (state c)"
    by (simp add: stop_def Let_def loading_ids_stopAllStreaming)
  from sent start err aborted tool stopped show ?thesis by blast
qed

theorem loading_placeholder_removal_witness:
  "messages (state ex_sent) =
     [(base_message ''u0'' User ''Hello'' 5)\<lparr>correlationId := Some ''u0'', isPending := Some True\<rparr>,
      (base_message ''u1'' Assistant [] 5)\<lparr>isLoading := Some True\<rparr>]
   \<and> loading_ids (state ex_sent) = [''u1'']
   \<and> loading_ids (state (onStreamEvent ex_amb (assistant_start ''a1'' 9) ex_sent)) = []
   \<and> messages (state (onError ex_amb (ErrorObject ''AbortError'' ''BodyStreamBuffer was aborted'')
        ex_sent))
      = [(base_message ''u0'' User ''Hello'' 5)\<lparr>correlationId := Some ''u0'', isPending := Some True\<rparr>]
   \<and> loading_ids (state (onStreamEvent ex_amb (tool_start ''t1'' ''lookup'' None) ex_sent)) = [''u1'']
   \<and> loading_ids (state (stop ex_sent)) = [''u1'']"
proof -
  let ?c = "new_ChatController (new_ChatState ''t0'' 0)"
  have h0: "getMessage (uuidv4 ex_amb 0) (state ?c) = None"
    and h1: "getMessage (uuidv4 ex_amb 1) (state ?c) = None"
    and h2: "uuidv4 ex_amb 0 \<noteq> uuidv4 ex_amb 1"
    by (simp_all add: getMessage_def new_ChatController_def new_ChatState_def ex_amb_def)
  have h3: "includes_str ''BodyStreamBuffer was aborted'' ''BodyStreamBuffer was aborted''"
    by simp
  have ids: "loading_ids (state ex_sent) = [''u1'']"
    by (simp add: loading_ids_def ex_sent_messages truthy_bool_def base_message_def)
  have kept: "filter (\<lambda>m. \<not> truthy_bool (isLoading m)) (messages (state ex_sent))
      = [(base_message ''u0'' User ''Hello'' 5)\<lparr>correlationId := Some ''u0'', isPending := Some True\<rparr>]"
    by (simp add: ex_sent_messages truthy_bool_def base_message_def)
  from loading_placeholder_removal [of ex_amb ?c "''Hello''" "''a1''" 9
      "ErrorObject ''AbortError'' ''BodyStreamBuffer was aborted''"
      "''BodyStreamBuffer was aborted''" "''AbortError''" "''t1''" "''lookup''" None]
    h0 h1 h2
  have sent: "messages (state (send ex_amb ''Hello'' ?c)) = messages (state ?c) @
        [(base_message (uuidv4 ex_amb 0) User ''Hello'' (Date_now ex_amb))
           \<lparr>correlationId := Some (uuidv4 ex_amb 0), isPending := Some True\<rparr>,
         (base_message (uuidv4 ex_amb 1) Assistant [] (Date_now ex_amb))\<lparr>isLoading := Some True\<rparr>]"
    by blast
  from loading_placeholder_removal [of ex_amb ex_sent "''Hello''" "''a1''" 9
      "ErrorObject ''AbortError'' ''BodyStreamBuffer was aborted''"
      "''BodyStreamBuffer was aborted''" "''AbortError''" "''t1''" "''lookup''" None]
    h3
  have rest: "loading_ids (state (onStreamEvent ex_amb (assistant_start ''a1'' 9) ex_sent)) = []"
    "messages (state (onError ex_amb (ErrorObject ''AbortError'' ''BodyStreamBuffer was aborted'')
        ex_sent))
      = filter (\<lambda>m. \<not> truthy_bool (isLoading m)) (messages (state ex_sent))"
    "loading_ids (state (onStreamEvent ex_amb (tool_start ''t1'' ''lookup'' None) ex_sent))
      = loading_ids (state ex_sent)"
    "loading_ids (state (stop ex_sent)) = loading_ids (state ex_sent)"
    by blast+
  from sent have "messages (state ex_sent) =
     [(base_message ''u0'' User ''Hello'' 5)\<lparr>correlationId := Some ''u0'', isPending := Some True\<rparr>,
      (base_message ''u1'' Assistant [] 5)\<lparr>isLoading := Some True\<rparr>]"
    by (simp add: ex_sent_def new_ChatController_def new_ChatState_def ex_amb_def)
  with rest ids kept show ?thesis by simp
qed

text \<open>
  The claim as it is written fails: after \<^verbatim>\<open>send\<close>, a \<^verbatim>\<open>tool_start\<close> event appends the tool
  message and the loading placeholder \<open>u1\<close> is still in the transcript; after \<^verbatim>\<open>send\<close> and
  \<^verbatim>\<open>stop()\<close> it is still there too, and when the cancelled request is one whose \<^verbatim>\<open>fetch\<close>
  has not answered yet, the transport calls no callback that could remove it.
\<close>

theorem loading_placeholder_counterexample:
  "map (\<lambda>m. (id' m, isLoading m))
     (messages (state (onStreamEvent ex_amb (tool_start ''t1'' ''lookup'' None) ex_sent)))
     = [(''u0'', None), (''u1'', Some True), (''t1'', None)]
   \<and> map (\<lambda>m. (id' m, isLoading m)) (messages (state (stop ex_sent)))
     = [(''u0'', None), (''u1'', Some True)]
   \<and> handleStreamingResponse ex_rt ex_svc (Some ''t0'')
       (FetchRejects (ErrorObject ''AbortError'' ''The user aborted a request.'')) = []"
  by (simp add: ex_sent_messages Let_def removeApprovalRequest_def addToolMessage_def emit_def
      assignToolInstance_def get_count_def put_count_def Object_prototype_keys_def
      stop_def stopAllStreaming_def truthy_bool_def is_tool_call_def base_message_def
      ex_sent_def send_def addMessage_def ex_amb_def new_ChatController_def new_ChatState_def
      handleStreamingResponse_def split: prod.splits)

section \<open>Approval requests and tool starts\<close>

lemma find_id_None_conv: "(find (\<lambda>m. id' m = t) xs = None) = (t \<notin> set (map id' xs))"
  by (induction xs) auto

lemma update_found_twice:
  "(\<And>x. P (f x) = P x) \<Longrightarrow>
   update_found P g (update_found P f xs) = update_found P (\<lambda>x. g (f x)) xs"
  by (induction xs) auto

lemma is_tool_call_upd [simp]:
  "is_tool_call t (m\<lparr>waitingForApproval := w\<rparr>) = is_tool_call t m"
  "is_tool_call t (m\<lparr>approvalStatus := a\<rparr>) = is_tool_call t m"
  "is_tool_call t (m\<lparr>isStreaming := b\<rparr>) = is_tool_call t m"
  by (simp_all add: is_tool_call_def)

lemma approval_request_upserts:
  assumes H: "(getToolMessageByCallId t (state c) = None) = (getMessage t (state c) = None)"
  shows "\<exists>tm. getToolMessageByCallId t
                 (state (onStreamEvent amb (approval_request t tname tin msg md) c)) = Some tm
              \<and> waitingForApproval tm = Some True \<and> approvalStatus tm = None
              \<and> getMessage t (state (onStreamEvent amb (approval_request t tname tin msg md) c))
                  \<noteq> None"
proof (cases "find (is_tool_call t) (messages (state c))")
  case None
  let ?new = "(base_message t Tool [] (Date_now amb))
                \<lparr>toolCallId := Some t, toolName := Some tname, toolInput := tin,
                 isStreaming := Some False, waitingForApproval := Some True,
                 approvalMessage := Some msg,
                 riskLevel := Some (md_riskLevel md),
                 affectedResources := Some (md_affectedResources md),
                 reversible := Some (md_reversible md),
                 estimatedImpact := Some (md_estimatedImpact md),
                 similarOperationsCount := Some (md_similarOperationsCount md),
                 availableApprovalLevels := Some (md_availableApprovalLevels md),
                 defaultApprovalLevel := Some (md_defaultApprovalLevel md)\<rparr>"
  from None H have noid: "find (\<lambda>m. id' m = t) (messages (state c)) = None"
    by (simp add: getToolMessageByCallId_def getMessage_def)
  then have "\<not> list_ex (\<lambda>e. id' e = t) (messages (state c))"
    by (simp add: list_ex_find)
  then have msgs: "messages (state (onStreamEvent amb (approval_request t tname tin msg md) c))
                = messages (state c) @ [?new]"
    using None
    by (simp add: addApprovalRequest_def getToolMessageByCallId_def addToolMessage_def emit_def
        base_message_def)
  have p: "is_tool_call t ?new" by (simp add: is_tool_call_def base_message_def)
  have i: "id' ?new = t" by (simp add: base_message_def)
  have "find (is_tool_call t) (messages (state c) @ [?new]) = Some ?new"
    using None p by (rule find_append_last)
  moreover have "find (\<lambda>m. id' m = t) (messages (state c) @ [?new]) = Some ?new"
    using noid i by (rule find_append_last)
  moreover have "waitingForApproval ?new = Some True \<and> approvalStatus ?new = None"
    by (simp add: base_message_def)
  ultimately show ?thesis
    unfolding msgs getToolMessageByCallId_def getMessage_def by simp
next
  case (Some tm0)
  have msgs: "messages (state (onStreamEvent amb (approval_request t tname tin msg md) c))
                = update_found (is_tool_call t) (on_approval_request msg md) (messages (state c))"
    using Some
    unfolding on_approval_request_def [abs_def]
    by (simp add: addApprovalRequest_def getToolMessageByCallId_def emit_def)
  have keep: "\<And>x. is_tool_call t (on_approval_request msg md x) = is_tool_call t x"
    by (simp add: is_tool_call_def on_approval_request_def)
  have "find (is_tool_call t) (update_found (is_tool_call t) (on_approval_request msg md)
          (messages (state c))) = Some (on_approval_request msg md tm0)"
    using Some by (simp add: find_update_found keep)
  moreover from Some H have "find (\<lambda>m. id' m = t) (messages (state c)) \<noteq> None"
    by (simp add: getToolMessageByCallId_def getMessage_def)
  then have "find (\<lambda>m. id' m = t)
      (update_found (is_tool_call t) (on_approval_request msg md) (messages (state c))) \<noteq> None"
    by (simp add: find_id_None_conv map_update_found on_approval_request_def)
  moreover have "waitingForApproval (on_approval_request msg md tm0) = Some True
      \<and> approvalStatus (on_approval_request msg md tm0) = None"
    by (simp add: on_approval_request_def)
  ultimately show ?thesis
    unfolding msgs getToolMessageByCallId_def getMessage_def by simp
qed

lemma tool_start_updates_existing:
  assumes "getMessage t (state c) \<noteq> None"
  shows "messages (state (onStreamEvent amb (tool_start t tname tin) c))
           = update_found (is_tool_call t) on_tool_start (messages (state c))"
proof -
  have "find (\<lambda>m. id' m = t) (update_found (is_tool_call t) on_tool_start (messages (state c)))
          \<noteq> None"
    using assms
    by (simp add: getMessage_def find_id_None_conv map_update_found on_tool_start_def)
  then have "list_ex (\<lambda>e. id' e = t)
               (update_found (is_tool_call t) on_tool_start (messages (state c)))"
    by (simp add: list_ex_find)
  then show ?thesis
    unfolding on_tool_start_def [abs_def]
    by (simp add: Let_def removeApprovalRequest_def addToolMessage_def emit_def
        base_message_def split: prod.splits)
qed

lemma tool_start_on_existing:
  assumes "getToolMessageByCallId t (state c) = Some tm" "getMessage t (state c) \<noteq> None"
  shows "getToolMessageByCallId t (state (onStreamEvent amb (tool_start t tname tin) c))
           = Some (on_tool_start tm)
         \<and> length (messages (state (onStreamEvent amb (tool_start t tname tin) c)))
           = length (messages (state c))"
proof -
  have keep: "\<And>x. is_tool_call t (on_tool_start x) = is_tool_call t x"
    by (simp add: on_tool_start_def)
  show ?thesis
    using assms(1)
    by (simp add: tool_start_updates_existing [OF assms(2)] getToolMessageByCallId_def
        find_update_found keep del: onStreamEvent.simps)
qed

lemma approve_begin_messages:
  assumes "getToolMessageByCallId t (state c) = Some tm"
  shows "messages (state (approveToolCall_begin t lvl c))
           = update_found (is_tool_call t) (on_approve (level_to_use lvl (Some tm)))
               (messages (state c))"
proof -
  have keep: "\<And>x. is_tool_call t (x\<lparr>approvalStatus := Some Approved\<rparr>) = is_tool_call t x"
    by simp
  have "find (is_tool_call t)
          (update_found (is_tool_call t) (\<lambda>m. m\<lparr>approvalStatus := Some Approved\<rparr>)
             (messages (state c))) = Some (tm\<lparr>approvalStatus := Some Approved\<rparr>)"
    using assms by (simp add: getToolMessageByCallId_def find_update_found)
  then show ?thesis
    using assms
    unfolding on_approve_def [abs_def]
    by (simp add: approveToolCall_begin_def Let_def updateApprovalRequest_def
        updateToolMessage_def getToolMessageByCallId_def emit_def update_found_twice)
qed

lemma approve_begin_on_existing:
  assumes "getToolMessageByCallId t (state c) = Some tm"
  shows "getToolMessageByCallId t (state (approveToolCall_begin t lvl c))
           = Some (on_approve (level_to_use lvl (Some tm)) tm)
         \<and> (getMessage t (state (approveToolCall_begin t lvl c)) = None)
             = (getMessage t (state c) = None)
         \<and> length (messages (state (approveToolCall_begin t lvl c)))
             = length (messages (state c))"
proof -
  have keep: "\<And>l x. is_tool_call t (on_approve l x) = is_tool_call t x"
    by (simp add: on_approve_def)
  have ids: "\<And>l x. id' (on_approve l x) = id' x"
    by (simp add: on_approve_def Object_assign_keeps)
  show ?thesis
    using assms
    by (simp add: approve_begin_messages [OF assms] getToolMessageByCallId_def getMessage_def
        find_update_found keep find_id_None_conv map_update_found ids)
qed

lemma on_approve_fields:
  "approvalStatus (on_approve l m) = Some Approved"
  "waitingForApproval (on_approve l m) = Some False"
  "isStreaming (on_approve l m) = isStreaming m"
  by (simp_all add: on_approve_def Object_assign_def)

lemma updateToolMessage_found:
  assumes "getToolMessageByCallId t s = Some tm"
  shows "getToolMessageByCallId t (updateToolMessage t us s) = Some (Object_assign tm us)
         \<and> threadId (updateToolMessage t us s) = threadId s"
  using assms
  by (simp add: updateToolMessage_def getToolMessageByCallId_def emit_def find_update_found)

lemma updateApprovalRequest_found:
  assumes "getToolMessageByCallId t s = Some tm"
  shows "getToolMessageByCallId t (updateApprovalRequest t b s)
           = Some (tm\<lparr>approvalStatus := Some (if b then Approved else Denied)\<rparr>)
         \<and> threadId (updateApprovalRequest t b s) = threadId s"
  using assms
  by (simp add: updateApprovalRequest_def getToolMessageByCallId_def emit_def find_update_found)

lemma tool_start_fields:
  assumes "getToolMessageByCallId t (state c) = Some tm" "getMessage t (state c) \<noteq> None"
  shows "\<exists>tm'. getToolMessageByCallId t (state (onStreamEvent amb (tool_start t tname tin) c))
                  = Some tm'
           \<and> waitingForApproval tm' = Some False
           \<and> approvalStatus tm' = approvalStatus tm
           \<and> isStreaming tm' = (if approvalStatus tm = Some Approved then Some True
                                else isStreaming tm)
           \<and> length (messages (state (onStreamEvent amb (tool_start t tname tin) c)))
               = length (messages (state c))"
proof -
  have "waitingForApproval (on_tool_start tm) = Some False
      \<and> approvalStatus (on_tool_start tm) = approvalStatus tm
      \<and> isStreaming (on_tool_start tm) = (if approvalStatus tm = Some Approved then Some True
                                           else isStreaming tm)"
    by (simp add: on_tool_start_def)
  with tool_start_on_existing [OF assms, of amb tname tin] show ?thesis by simp
qed

lemma updateApprovalRequest_keeps:
  "(getMessage i (updateApprovalRequest t b s) = None) = (getMessage i s = None)
   \<and> length (messages (updateApprovalRequest t b s)) = length (messages s)"
  by (simp add: updateApprovalRequest_def getMessage_def emit_def find_id_None_conv
      map_update_found)

lemma updateToolMessage_keeps:
  "(getMessage i (updateToolMessage t us s) = None) = (getMessage i s = None)
   \<and> length (messages (updateToolMessage t us s)) = length (messages s)"
proof -
  have "map id' (update_found (is_tool_call t) (\<lambda>m. Object_assign m us) (messages s))
          = map id' (messages s)"
    by (rule map_update_found) (simp add: Object_assign_keeps)
  then have "(find (\<lambda>m. id' m = i)
                (update_found (is_tool_call t) (\<lambda>m. Object_assign m us) (messages s)) = None)
           = (find (\<lambda>m. id' m = i) (messages s) = None)"
    unfolding find_id_None_conv by simp
  then show ?thesis
    by (simp add: updateToolMessage_def getMessage_def emit_def split: option.splits)
qed

lemma deny_begin_on_existing:
  assumes "getToolMessageByCallId t (state c) = Some tm"
  shows "\<exists>tm'. getToolMessageByCallId t (state (denyToolCall_begin t c)) = Some tm'
           \<and> approvalStatus tm' = Some Denied \<and> waitingForApproval tm' = Some False
           \<and> isStreaming tm' = Some False
           \<and> (getMessage t (state (denyToolCall_begin t c)) = None)
               = (getMessage t (state c) = None)
           \<and> length (messages (state (denyToolCall_begin t c))) = length (messages (state c))"
proof -
  let ?dups = "[Set_approvalStatus (Some Denied), Set_waitingForApproval (Some False),
                Set_isStreaming (Some False), Set_status (Some Failure),
                Set_toolOutput (Some (JStr ''Tool execution was denied by user''))]"
  let ?d1 = "Object_assign (tm\<lparr>approvalStatus := Some Denied\<rparr>) ?dups"
  have d0: "getToolMessageByCallId t (updateApprovalRequest t False (state c))
              = Some (tm\<lparr>approvalStatus := Some Denied\<rparr>)"
    using updateApprovalRequest_found [OF assms, of False] by simp
  have "getToolMessageByCallId t (state (denyToolCall_begin t c)) = Some ?d1"
    using updateToolMessage_found [OF d0, of ?dups]
    by (simp add: denyToolCall_begin_def Let_def)
  moreover have "approvalStatus ?d1 = Some Denied \<and> waitingForApproval ?d1 = Some False
      \<and> isStreaming ?d1 = Some False"
    by (simp add: Object_assign_def)
  moreover have "(getMessage t (state (denyToolCall_begin t c)) = None)
               = (getMessage t (state c) = None)
     \<and> length (messages (state (denyToolCall_begin t c))) = length (messages (state c))"
    by (simp add: denyToolCall_begin_def Let_def updateToolMessage_keeps
        updateApprovalRequest_keeps)
  ultimately show ?thesis by simp
qed

text \<open>
  The controller keeps the id discipline: it holds for a new controller and every stream
  event preserves it. Under it, the id \<open>t\<close> is in use exactly when a tool message for the
  call \<open>t\<close> exists, provided no other kind of message carries the id \<open>t\<close>.
\<close>

lemma list_all_update_found:
  "list_all Q xs \<Longrightarrow> (\<And>x. Q x \<Longrightarrow> Q (f x)) \<Longrightarrow> list_all Q (update_found P f xs)"
  by (induction xs) auto

lemma keyed_message_Object_assign: "keyed_message m \<Longrightarrow> keyed_message (Object_assign m us)"
proof -
  have "\<And>u m. isPending (assign_field u m) = isPending m"
    by (case_tac u) simp_all
  then have "isPending (Object_assign m us) = isPending m"
    unfolding Object_assign_def by (induction us arbitrary: m) simp_all
  then show "keyed_message m \<Longrightarrow> keyed_message (Object_assign m us)"
    by (simp add: keyed_message_def Object_assign_keeps)
qed

lemma keyed_emit [simp]: "tool_ids_keyed (emit s) = tool_ids_keyed s"
  by (simp add: tool_ids_keyed_def emit_def)

lemma keyed_addMessage:
  "tool_ids_keyed s \<Longrightarrow> keyed_message m \<Longrightarrow> tool_ids_keyed (addMessage m s)"
  by (simp add: addMessage_def tool_ids_keyed_def emit_def)

lemma keyed_addToolMessage:
  "tool_ids_keyed s \<Longrightarrow> keyed_message m \<Longrightarrow> tool_ids_keyed (addToolMessage m s)"
  by (simp add: addToolMessage_def tool_ids_keyed_def emit_def)

lemma keyed_removeLoadingMessages:
  "tool_ids_keyed s \<Longrightarrow> tool_ids_keyed (removeLoadingMessages s)"
  by (simp add: removeLoadingMessages_def tool_ids_keyed_def emit_def list_all_iff)

lemma keyed_syncThreadId: "tool_ids_keyed s \<Longrightarrow> tool_ids_keyed (syncThreadId t s)"
  by (simp add: syncThreadId_def tool_ids_keyed_def emit_def)

lemma keyed_syncUserMessage:
  assumes "tool_ids_keyed s"
  shows "tool_ids_keyed (syncUserMessage b c s)"
proof (cases "findIndex (\<lambda>msg. correlationId msg = Some c \<and> isPending msg = Some True) (messages s)")
  case None
  with assms show ?thesis by (simp add: syncUserMessage_def split: option.splits)
next
  case (Some i)
  then have i: "i < length (messages s)" and p: "isPending (messages s ! i) = Some True"
    using findIndex_Some_less [OF Some] by simp_all
  from assms i have "keyed_message (messages s ! i)"
    by (simp add: tool_ids_keyed_def list_all_length)
  with p have "keyed_message ((messages s ! i)\<lparr>id' := b, isPending := Some False\<rparr>)"
    by (simp add: keyed_message_def)
  with assms have "list_all keyed_message
      ((messages s)[i := (messages s ! i)\<lparr>id' := b, isPending := Some False\<rparr>])"
    by (auto simp: tool_ids_keyed_def list_all_iff dest!: set_update_subset_insert [THEN subsetD])
  with assms Some show ?thesis
    by (simp add: syncUserMessage_def tool_ids_keyed_def emit_def split: option.splits)
qed

lemma keyed_appendToMessage: "tool_ids_keyed s \<Longrightarrow> tool_ids_keyed (appendToMessage m txt s)"
  by (auto simp: appendToMessage_def tool_ids_keyed_def emit_def keyed_message_def
      intro!: list_all_update_found split: option.splits)

lemma keyed_markMessageComplete: "tool_ids_keyed s \<Longrightarrow> tool_ids_keyed (markMessageComplete m s)"
  by (auto simp: markMessageComplete_def tool_ids_keyed_def emit_def keyed_message_def
      intro!: list_all_update_found split: option.splits)

lemma keyed_updateMessage: "tool_ids_keyed s \<Longrightarrow> tool_ids_keyed (updateMessage m us s)"
  by (auto simp: updateMessage_def tool_ids_keyed_def emit_def keyed_message_Object_assign
      intro!: list_all_update_found split: option.splits)

lemma keyed_updateToolMessage: "tool_ids_keyed s \<Longrightarrow> tool_ids_keyed (updateToolMessage t us s)"
  by (auto simp: updateToolMessage_def tool_ids_keyed_def emit_def keyed_message_Object_assign
      intro!: list_all_update_found split: option.splits)

lemma keyed_removeApprovalRequest:
  "tool_ids_keyed s \<Longrightarrow> tool_ids_keyed (removeApprovalRequest t s)"
  by (auto simp: removeApprovalRequest_def tool_ids_keyed_def emit_def keyed_message_def
      intro!: list_all_update_found)

lemma keyed_updateApprovalRequest:
  "tool_ids_keyed s \<Longrightarrow> tool_ids_keyed (updateApprovalRequest t b s)"
  by (auto simp: updateApprovalRequest_def tool_ids_keyed_def emit_def keyed_message_def
      intro!: list_all_update_found)

lemma keyed_addApprovalRequest:
  "tool_ids_keyed s \<Longrightarrow> tool_ids_keyed (addApprovalRequest now t tname tin msg md s)"
proof (cases "getToolMessageByCallId t s")
  case None
  have "keyed_message ((base_message t Tool [] now)
                \<lparr>toolCallId := Some t, toolName := Some tname, toolInput := tin,
                 isStreaming := Some False, waitingForApproval := Some True,
                 approvalMessage := Some msg,
                 riskLevel := Some (md_riskLevel md),
                 affectedResources := Some (md_affectedResources md),
                 reversible := Some (md_reversible md),
                 estimatedImpact := Some (md_estimatedImpact md),
                 similarOperationsCount := Some (md_similarOperationsCount md),
                 availableApprovalLevels := Some (md_availableApprovalLevels md),
                 defaultApprovalLevel := Some (md_defaultApprovalLevel md)\<rparr>)"
    by (simp add: keyed_message_def base_message_def)
  then show ?thesis
    if "tool_ids_keyed s"
    using that None by (simp add: addApprovalRequest_def keyed_addToolMessage)
next
  case (Some tm)
  then show ?thesis
    if "tool_ids_keyed s"
    using that
    by (auto simp: addApprovalRequest_def tool_ids_keyed_def emit_def keyed_message_def
        intro!: list_all_update_found)
qed

lemma keyed_addBatchApprovalRequest:
  "tool_ids_keyed s \<Longrightarrow> tool_ids_keyed (addBatchApprovalRequest now tcs s)"
  unfolding addBatchApprovalRequest_def
  by (induction tcs arbitrary: s) (simp_all add: keyed_addApprovalRequest)

lemma keyed_onStreamEvent:
  assumes "tool_ids_keyed (state c)"
  shows "tool_ids_keyed (state (onStreamEvent amb ev c))"
proof (cases ev)
  case (tool_start tcid tname tin)
  then show ?thesis
    using assms
    by (simp add: Let_def split: prod.splits)
      (simp add: keyed_addToolMessage keyed_removeApprovalRequest keyed_message_def
        base_message_def)
next
  case (error_event mid err)
  then show ?thesis
    using assms
    by (simp add: keyed_updateMessage keyed_addMessage keyed_message_def base_message_def
        split: option.splits)
qed (use assms in \<open>simp_all add: keyed_syncUserMessage keyed_syncThreadId keyed_addMessage
      keyed_removeLoadingMessages keyed_appendToMessage keyed_markMessageComplete
      keyed_updateToolMessage keyed_addApprovalRequest keyed_addBatchApprovalRequest
      keyed_message_def base_message_def Let_def\<close>)

lemma keyed_events:
  "tool_ids_keyed (state c) \<Longrightarrow> tool_ids_keyed (state (fold (onStreamEvent amb) evs c))"
  by (induction evs arbitrary: c) (simp_all add: keyed_onStreamEvent del: onStreamEvent.simps)

lemma keyed_new: "tool_ids_keyed (state (new_ChatController (new_ChatState tid now)))"
  by (simp add: tool_ids_keyed_def new_ChatController_def new_ChatState_def)

lemma keyed_condition:
  assumes "tool_ids_keyed s"
      and "list_all (\<lambda>m. id' m \<noteq> t \<or> role m = Tool) (messages s)"
  shows "(getToolMessageByCallId t s = None) = (getMessage t s = None)"
  using assms
  by (auto simp: getToolMessageByCallId_def getMessage_def find_None_conv tool_ids_keyed_def
      list_all_iff is_tool_call_def keyed_message_def)

text \<open>
  Claim C4, as the code has it. Let the id \<open>t1\<close> be in use in the transcript exactly when a
  tool message for the call \<open>t1\<close> exists. Then after an \<^verbatim>\<open>approval_request\<close> for \<open>t1\<close> the tool
  message for \<open>t1\<close> exists, waits for approval and has no approval status. A \<^verbatim>\<open>tool_start\<close>
  for \<open>t1\<close> on any transcript that holds the entry sets \<^verbatim>\<open>waitingForApproval\<close> to false,
  keeps the approval status, sets \<^verbatim>\<open>isStreaming\<close> to true when the status is \<open>approved\<close>
  and leaves \<^verbatim>\<open>isStreaming\<close> as it was otherwise, and adds no message. In particular:
  directly after the request, \<^verbatim>\<open>isStreaming\<close> is unchanged; after the optimistic step of
  \<^verbatim>\<open>approveToolCall\<close>, the status is \<open>approved\<close> and \<^verbatim>\<open>isStreaming\<close> is true; after the
  optimistic step of \<^verbatim>\<open>denyToolCall\<close>, the status is \<open>denied\<close> and \<^verbatim>\<open>isStreaming\<close> stays false.
\<close>

theorem approval_request_then_tool_start:
  assumes keyed: "(getToolMessageByCallId t1 (state c) = None) = (getMessage t1 (state c) = None)"
  shows "(getToolMessageByCallId t1 (state c') = Some tm \<longrightarrow> getMessage t1 (state c') \<noteq> None \<longrightarrow>
      (\<exists>tm'. getToolMessageByCallId t1 (state (onStreamEvent amb' (tool_start t1 tname' tin') c'))
                = Some tm'
         \<and> waitingForApproval tm' = Some False
         \<and> approvalStatus tm' = approvalStatus tm
         \<and> isStreaming tm' = (if approvalStatus tm = Some Approved then Some True
                              else isStreaming tm)
         \<and> length (messages (state (onStreamEvent amb' (tool_start t1 tname' tin') c')))
             = length (messages (state c'))))
   \<and> (\<exists>tm1.
      getToolMessageByCallId t1 (state (onStreamEvent amb (approval_request t1 tname tin msg md) c))
        = Some tm1
      \<and> waitingForApproval tm1 = Some True \<and> approvalStatus tm1 = None
      \<and> getMessage t1 (state (onStreamEvent amb (approval_request t1 tname tin msg md) c)) \<noteq> None
      \<and> (\<exists>tm2. getToolMessageByCallId t1
                   (state (onStreamEvent amb' (tool_start t1 tname' tin')
                      (onStreamEvent amb (approval_request t1 tname tin msg md) c))) = Some tm2
              \<and> waitingForApproval tm2 = Some False \<and> approvalStatus tm2 = None
              \<and> isStreaming tm2 = isStreaming tm1)
      \<and> (\<exists>tm3. getToolMessageByCallId t1
                   (state (onStreamEvent amb' (tool_start t1 tname' tin')
                      (approveToolCall_begin t1 lvl
                        (onStreamEvent amb (approval_request t1 tname tin msg md) c)))) = Some tm3
              \<and> waitingForApproval tm3 = Some False \<and> approvalStatus tm3 = Some Approved
              \<and> isStreaming tm3 = Some True)
      \<and> (\<exists>tm4. getToolMessageByCallId t1
                   (state (onStreamEvent amb' (tool_start t1 tname' tin')
                      (denyToolCall_begin t1
                        (onStreamEvent amb (approval_request t1 tname tin msg md) c)))) = Some tm4
              \<and> waitingForApproval tm4 = Some False \<and> approvalStatus tm4 = Some Denied
              \<and> isStreaming tm4 = Some False)
      \<and> length (messages (state (onStreamEvent amb' (tool_start t1 tname' tin')
                      (onStreamEvent amb (approval_request t1 tname tin msg md) c))))
          = length (messages (state (onStreamEvent amb (approval_request t1 tname tin msg md) c)))
      \<and> length (messages (state (onStreamEvent amb' (tool_start t1 tname' tin')
                      (approveToolCall_begin t1 lvl
                        (onStreamEvent amb (approval_request t1 tname tin msg md) c)))))
          = length (messages (state (onStreamEvent amb (approval_request t1 tname tin msg md) c)))
      \<and> length (messages (state (onStreamEvent amb' (tool_start t1 tname' tin')
                      (denyToolCall_begin t1
                        (onStreamEvent amb (approval_request t1 tname tin msg md) c)))))
          = length (messages (state (onStreamEvent amb (approval_request t1 tname tin msg md) c))))"
proof -
  let ?c1 = "onStreamEvent amb (approval_request t1 tname tin msg md) c"
  let ?c2 = "approveToolCall_begin t1 lvl ?c1"
  let ?c3 = "denyToolCall_begin t1 ?c1"
  have general: "getToolMessageByCallId t1 (state c') = Some tm \<longrightarrow>
      getMessage t1 (state c') \<noteq> None \<longrightarrow>
      (\<exists>tm'. getToolMessageByCallId t1 (state (onStreamEvent amb' (tool_start t1 tname' tin') c'))
                = Some tm'
         \<and> waitingForApproval tm' = Some False
         \<and> approvalStatus tm' = approvalStatus tm
         \<and> isStreaming tm' = (if approvalStatus tm = Some Approved then Some True
                              else isStreaming tm)
         \<and> length (messages (state (onStreamEvent amb' (tool_start t1 tname' tin') c')))
             = length (messages (state c')))"
    using tool_start_fields [of t1 c' tm amb' tname' tin'] by blast
  from approval_request_upserts [OF keyed, of amb tname tin msg md]
  obtain tm1 where tm1: "getToolMessageByCallId t1 (state ?c1) = Some tm1"
    and w1: "waitingForApproval tm1 = Some True" and a1: "approvalStatus tm1 = None"
    and id1: "getMessage t1 (state ?c1) \<noteq> None"
    by blast
  from tool_start_fields [OF tm1 id1, of amb' tname' tin'] a1
  have plain: "\<exists>tm2. getToolMessageByCallId t1
                   (state (onStreamEvent amb' (tool_start t1 tname' tin') ?c1)) = Some tm2
              \<and> waitingForApproval tm2 = Some False \<and> approvalStatus tm2 = None
              \<and> isStreaming tm2 = isStreaming tm1"
    and plain_len: "length (messages (state (onStreamEvent amb' (tool_start t1 tname' tin') ?c1)))
                 = length (messages (state ?c1))"
    by auto
  let ?tma = "on_approve (level_to_use lvl (Some tm1)) tm1"
  from approve_begin_on_existing [OF tm1, of lvl]
  have tm2: "getToolMessageByCallId t1 (state ?c2) = Some ?tma"
    and id2: "getMessage t1 (state ?c2) \<noteq> None"
    and len2: "length (messages (state ?c2)) = length (messages (state ?c1))"
    using id1 by blast+
  from tool_start_fields [OF tm2 id2, of amb' tname' tin']
  have appr: "\<exists>tm3. getToolMessageByCallId t1
                   (state (onStreamEvent amb' (tool_start t1 tname' tin') ?c2)) = Some tm3
              \<and> waitingForApproval tm3 = Some False \<and> approvalStatus tm3 = Some Approved
              \<and> isStreaming tm3 = Some True"
    and appr_len: "length (messages (state (onStreamEvent amb' (tool_start t1 tname' tin') ?c2)))
                 = length (messages (state ?c2))"
    by (auto simp: on_approve_fields)
  from deny_begin_on_existing [OF tm1]
  obtain tmd where tmd: "getToolMessageByCallId t1 (state ?c3) = Some tmd"
    and dfields: "approvalStatus tmd = Some Denied" "isStreaming tmd = Some False"
    and id3: "getMessage t1 (state ?c3) \<noteq> None"
    and len3: "length (messages (state ?c3)) = length (messages (state ?c1))"
    using id1 by blast
  from tool_start_fields [OF tmd id3, of amb' tname' tin'] dfields
  have den: "\<exists>tm4. getToolMessageByCallId t1
                   (state (onStreamEvent amb' (tool_start t1 tname' tin') ?c3)) = Some tm4
              \<and> waitingForApproval tm4 = Some False \<and> approvalStatus tm4 = Some Denied
              \<and> isStreaming tm4 = Some False"
    and den_len: "length (messages (state (onStreamEvent amb' (tool_start t1 tname' tin') ?c3)))
                 = length (messages (state ?c3))"
    by auto
  from tm1 w1 a1 id1 plain appr den plain_len appr_len den_len len2 len3
  have "\<exists>tm1.
      getToolMessageByCallId t1 (state ?c1) = Some tm1
      \<and> waitingForApproval tm1 = Some True \<and> approvalStatus tm1 = None
      \<and> getMessage t1 (state ?c1) \<noteq> None
      \<and> (\<exists>tm2. getToolMessageByCallId t1
                   (state (onStreamEvent amb' (tool_start t1 tname' tin') ?c1)) = Some tm2
              \<and> waitingForApproval tm2 = Some False \<and> approvalStatus tm2 = None
              \<and> isStreaming tm2 = isStreaming tm1)
      \<and> (\<exists>tm3. getToolMessageByCallId t1
                   (state (onStreamEvent amb' (tool_start t1 tname' tin') ?c2)) = Some tm3
              \<and> waitingForApproval tm3 = Some False \<and> approvalStatus tm3 = Some Approved
              \<and> isStreaming tm3 = Some True)
      \<and> (\<exists>tm4. getToolMessageByCallId t1
                   (state (onStreamEvent amb' (tool_start t1 tname' tin') ?c3)) = Some tm4
              \<and> waitingForApproval tm4 = Some False \<and> approvalStatus tm4 = Some Denied
              \<and> isStreaming tm4 = Some False)
      \<and> length (messages (state (onStreamEvent amb' (tool_start t1 tname' tin') ?c1)))
          = length (messages (state ?c1))
      \<and> length (messages (state (onStreamEvent amb' (tool_start t1 tname' tin') ?c2)))
          = length (messages (state ?c1))
      \<and> length (messages (state (onStreamEvent amb' (tool_start t1 tname' tin') ?c3)))
          = length (messages (state ?c1))"
    by simp
  with general show ?thesis by blast
qed

theorem approval_request_then_tool_start_witness:
  "(getToolMessageByCallId ''t1'' (state ex_sent) = None) = (getMessage ''t1'' (state ex_sent) = None)
   \<and> (\<exists>tm'. getToolMessageByCallId ''t1''
               (state (onStreamEvent ex_amb (tool_start ''t1'' ''lookup'' None) ex_waiting)) = Some tm'
         \<and> waitingForApproval tm' = Some False
         \<and> approvalStatus tm' = approvalStatus ex_tool
         \<and> isStreaming tm' = (if approvalStatus ex_tool = Some Approved then Some True
                              else isStreaming ex_tool)
         \<and> length (messages (state (onStreamEvent ex_amb (tool_start ''t1'' ''lookup'' None) ex_waiting)))
             = length (messages (state ex_waiting)))
   \<and> (\<exists>tm1.
      getToolMessageByCallId ''t1''
        (state (onStreamEvent ex_amb (approval_request ''t1'' ''lookup'' None ''ok?'' ex_metadata) ex_sent))
        = Some tm1
      \<and> waitingForApproval tm1 = Some True \<and> approvalStatus tm1 = None
      \<and> (\<exists>tm2. getToolMessageByCallId ''t1''
                   (state (onStreamEvent ex_amb (tool_start ''t1'' ''lookup'' None)
                      (onStreamEvent ex_amb (approval_request ''t1'' ''lookup'' None ''ok?'' ex_metadata)
                         ex_sent))) = Some tm2
              \<and> waitingForApproval tm2 = Some False \<and> approvalStatus tm2 = None
              \<and> isStreaming tm2 = isStreaming tm1)
      \<and> (\<exists>tm3. getToolMessageByCallId ''t1''
                   (state (onStreamEvent ex_amb (tool_start ''t1'' ''lookup'' None)
                      (approveToolCall_begin ''t1'' None
                        (onStreamEvent ex_amb
                           (approval_request ''t1'' ''lookup'' None ''ok?'' ex_metadata) ex_sent))))
                   = Some tm3
              \<and> waitingForApproval tm3 = Some False \<and> approvalStatus tm3 = Some Approved
              \<and> isStreaming tm3 = Some True)
      \<and> (\<exists>tm4. getToolMessageByCallId ''t1''
                   (state (onStreamEvent ex_amb (tool_start ''t1'' ''lookup'' None)
                      (denyToolCall_begin ''t1''
                        (onStreamEvent ex_amb
                           (approval_request ''t1'' ''lookup'' None ''ok?'' ex_metadata) ex_sent))))
                   = Some tm4
              \<and> waitingForApproval tm4 = Some False \<and> approvalStatus tm4 = Some Denied
              \<and> isStreaming tm4 = Some False)
      \<and> length (messages (state (onStreamEvent ex_amb (tool_start ''t1'' ''lookup'' None)
                      (onStreamEvent ex_amb (approval_request ''t1'' ''lookup'' None ''ok?'' ex_metadata)
                         ex_sent))))
          = length (messages (state (onStreamEvent ex_amb
                      (approval_request ''t1'' ''lookup'' None ''ok?'' ex_metadata) ex_sent))))"
proof -
  have h: "(getToolMessageByCallId ''t1'' (state ex_sent) = None)
             = (getMessage ''t1'' (state ex_sent) = None)"
    by (simp add: getToolMessageByCallId_def getMessage_def ex_sent_messages is_tool_call_def
        base_message_def)
  from approval_request_then_tool_start [OF h, where c' = ex_waiting and tm = ex_tool
      and amb = ex_amb and amb' = ex_amb and tname = "''lookup''" and tname' = "''lookup''"
      and tin = None and tin' = None and msg = "''ok?''" and md = ex_metadata and lvl = None]
    h ex_waiting_tool ex_waiting_id
  show ?thesis by blast
qed

text \<open>
  The claim as it is written fails for a tool call whose id is already the id of another
  message: after an \<^verbatim>\<open>assistant_start\<close> with id \<open>t1\<close>, the duplicate check of
  \<^verbatim>\<open>addToolMessage\<close> skips the tool message both at the \<^verbatim>\<open>approval_request\<close> and at the
  \<^verbatim>\<open>tool_start\<close>, and no tool message for \<open>t1\<close> exists afterwards.
\<close>

theorem approval_request_id_clash_counterexample:
  "map (\<lambda>m. (id' m, role m))
     (messages (state
        (onStreamEvent ex_amb (tool_start ''t1'' ''lookup'' None)
          (onStreamEvent ex_amb (approval_request ''t1'' ''lookup'' None ''ok?'' ex_metadata)
            (onStreamEvent ex_amb (assistant_start ''t1'' 9)
               (new_ChatController (new_ChatState ''t0'' 0)))))))
     = [(''t1'', Assistant)]
   \<and> getToolMessageByCallId ''t1''
       (state
        (onStreamEvent ex_amb (tool_start ''t1'' ''lookup'' None)
          (onStreamEvent ex_amb (approval_request ''t1'' ''lookup'' None ''ok?'' ex_metadata)
            (onStreamEvent ex_amb (assistant_start ''t1'' 9)
               (new_ChatController (new_ChatState ''t0'' 0))))))
     = None"
  by (simp add: Let_def removeApprovalRequest_def addToolMessage_def addMessage_def
      addApprovalRequest_def removeLoadingMessages_def getToolMessageByCallId_def emit_def
      assignToolInstance_def get_count_def put_count_def Object_prototype_keys_def
      is_tool_call_def truthy_bool_def base_message_def new_ChatController_def
      new_ChatState_def split: prod.splits)

section \<open>Approving and denying a tool call\<close>

text \<open>
  The controller against any \<^verbatim>\<open>ChatService\<close>. When a tool message for the call exists,
  \<^verbatim>\<open>approveToolCall\<close> first sets it to approved and no longer waiting and calls
  \<^verbatim>\<open>sendApproval\<close> on the service; when the promise of that call rejects, the tool message
  is waiting again, has no approval status, carries the text "Failed to send approval: ..."
  as its error, and the error is rethrown. \<^verbatim>\<open>denyToolCall\<close> sets the message to denied and not
  waiting; when the promise rejects, the message stays denied and not waiting, carries
  "Failed to send denial: ..." as its error, and nothing is rethrown.
\<close>

theorem approve_deny_network_failure:
  assumes found: "getToolMessageByCallId t (state c) = Some tm"
  shows
   "(\<exists>tm1. getToolMessageByCallId t (state (approveToolCall_begin t lvl c)) = Some tm1
        \<and> approvalStatus tm1 = Some Approved \<and> waitingForApproval tm1 = Some False)
    \<and> service_calls (approveToolCall_begin t lvl c) = service_calls c @
         [SendApproval t True (threadId (state c)) (Some (level_to_use lvl (Some tm)))]
    \<and> (\<exists>tm2. getToolMessageByCallId t (state (fst (approveToolCall t lvl (Some e) c))) = Some tm2
        \<and> waitingForApproval tm2 = Some True \<and> approvalStatus tm2 = None
        \<and> error tm2 = Some (''Failed to send approval: '' @ error_text e))
    \<and> snd (approveToolCall t lvl (Some e) c) = Some e
    \<and> approveToolCall t lvl None c = (approveToolCall_begin t lvl c, None)
    \<and> (\<exists>tm3. getToolMessageByCallId t (state (denyToolCall_begin t c)) = Some tm3
        \<and> approvalStatus tm3 = Some Denied \<and> waitingForApproval tm3 = Some False)
    \<and> service_calls (denyToolCall_begin t c) = service_calls c @
         [SendApproval t False (threadId (state c)) None]
    \<and> (\<exists>tm4. getToolMessageByCallId t (state (fst (denyToolCall t (Some e) c))) = Some tm4
        \<and> approvalStatus tm4 = Some Denied \<and> waitingForApproval tm4 = Some False
        \<and> error tm4 = Some (''Failed to send denial: '' @ error_text e))
    \<and> snd (denyToolCall t (Some e) c) = None"
proof -
  let ?l = "level_to_use lvl (Some tm)"
  let ?ups = "[Set_approvalStatus (Some Approved), Set_approvalLevel (Some ?l),
               Set_waitingForApproval (Some False)]"
  let ?revert = "[Set_approvalStatus None, Set_approvalLevel None,
                  Set_waitingForApproval (Some True),
                  Set_error (Some (''Failed to send approval: '' @ error_text e))]"
  let ?dups = "[Set_approvalStatus (Some Denied), Set_waitingForApproval (Some False),
                Set_isStreaming (Some False), Set_status (Some Failure),
                Set_toolOutput (Some (JStr ''Tool execution was denied by user''))]"
  let ?note = "[Set_error (Some (''Failed to send denial: '' @ error_text e))]"
  let ?a1 = "Object_assign (tm\<lparr>approvalStatus := Some Approved\<rparr>) ?ups"
  let ?d1 = "Object_assign (tm\<lparr>approvalStatus := Some Denied\<rparr>) ?dups"
  have s1: "getToolMessageByCallId t (updateApprovalRequest t True (state c))
              = Some (tm\<lparr>approvalStatus := Some Approved\<rparr>)"
    and th1: "threadId (updateApprovalRequest t True (state c)) = threadId (state c)"
    using updateApprovalRequest_found [OF found, of True] by simp_all
  have abegin: "getToolMessageByCallId t (state (approveToolCall_begin t lvl c)) = Some ?a1"
    and abegin_calls: "service_calls (approveToolCall_begin t lvl c) = service_calls c @
         [SendApproval t True (threadId (state c)) (Some ?l)]"
    using updateToolMessage_found [OF s1, of ?ups] th1 found
    by (simp_all add: approveToolCall_begin_def Let_def getThreadId_def)
  have failed: "getToolMessageByCallId t (state (fst (approveToolCall t lvl (Some e) c)))
                  = Some (Object_assign ?a1 ?revert)"
    using updateToolMessage_found [OF abegin, of ?revert]
    by (simp add: approveToolCall_def approveToolCall_settle_def)
  have d0: "getToolMessageByCallId t (updateApprovalRequest t False (state c))
              = Some (tm\<lparr>approvalStatus := Some Denied\<rparr>)"
    and th2: "threadId (updateApprovalRequest t False (state c)) = threadId (state c)"
    using updateApprovalRequest_found [OF found, of False] by simp_all
  have dbegin: "getToolMessageByCallId t (state (denyToolCall_begin t c)) = Some ?d1"
    and dbegin_calls: "service_calls (denyToolCall_begin t c) = service_calls c @
         [SendApproval t False (threadId (state c)) None]"
    using updateToolMessage_found [OF d0, of ?dups] th2
    by (simp_all add: denyToolCall_begin_def Let_def getThreadId_def)
  have dfailed: "getToolMessageByCallId t (state (fst (denyToolCall t (Some e) c)))
                  = Some (Object_assign ?d1 ?note)"
    using updateToolMessage_found [OF dbegin, of ?note]
    by (simp add: denyToolCall_def denyToolCall_settle_def)
  have f1: "approvalStatus ?a1 = Some Approved \<and> waitingForApproval ?a1 = Some False"
    by (simp add: Object_assign_def)
  have f2: "waitingForApproval (Object_assign ?a1 ?revert) = Some True
      \<and> approvalStatus (Object_assign ?a1 ?revert) = None
      \<and> error (Object_assign ?a1 ?revert) = Some (''Failed to send approval: '' @ error_text e)"
    by (simp add: Object_assign_def)
  have f3: "approvalStatus ?d1 = Some Denied \<and> waitingForApproval ?d1 = Some False"
    by (simp add: Object_assign_def)
  have f4: "approvalStatus (Object_assign ?d1 ?note) = Some Denied
      \<and> waitingForApproval (Object_assign ?d1 ?note) = Some False
      \<and> error (Object_assign ?d1 ?note) = Some (''Failed to send denial: '' @ error_text e)"
    by (simp add: Object_assign_def)
  have r1: "snd (approveToolCall t lvl (Some e) c) = Some e"
    by (simp add: approveToolCall_def approveToolCall_settle_def)
  have r2: "approveToolCall t lvl None c = (approveToolCall_begin t lvl c, None)"
    by (simp add: approveToolCall_def approveToolCall_settle_def)
  have r3: "snd (denyToolCall t (Some e) c) = None"
    by (simp add: denyToolCall_def denyToolCall_settle_def)
  from abegin abegin_calls failed dbegin dbegin_calls dfailed f1 f2 f3 f4 r1 r2 r3
  show ?thesis by simp
qed

theorem approve_deny_network_failure_witness:
  "(\<exists>tm1. getToolMessageByCallId ''t1'' (state (approveToolCall_begin ''t1'' None ex_waiting)) = Some tm1
        \<and> approvalStatus tm1 = Some Approved \<and> waitingForApproval tm1 = Some False)
    \<and> service_calls (approveToolCall_begin ''t1'' None ex_waiting) = service_calls ex_waiting @
         [SendApproval ''t1'' True ''t0'' (Some ''user'')]
    \<and> (\<exists>tm2. getToolMessageByCallId ''t1''
           (state (fst (approveToolCall ''t1'' None (Some (ErrorObject ''Error'' ''no credentials''))
              ex_waiting))) = Some tm2
        \<and> waitingForApproval tm2 = Some True \<and> approvalStatus tm2 = None
        \<and> error tm2 = Some ''Failed to send approval: no credentials'')
    \<and> snd (approveToolCall ''t1'' None (Some (ErrorObject ''Error'' ''no credentials'')) ex_waiting)
         = Some (ErrorObject ''Error'' ''no credentials'')
    \<and> (\<exists>tm4. getToolMessageByCallId ''t1''
           (state (fst (denyToolCall ''t1'' (Some (ErrorObject ''Error'' ''no credentials''))
              ex_waiting))) = Some tm4
        \<and> approvalStatus tm4 = Some Denied \<and> waitingForApproval tm4 = Some False
        \<and> error tm4 = Some ''Failed to send denial: no credentials'')
    \<and> snd (denyToolCall ''t1'' (Some (ErrorObject ''Error'' ''no credentials'')) ex_waiting) = None"
proof -
  have l: "level_to_use None (Some ex_tool) = ''user''"
    by (simp add: level_to_use_def truthy_str_def ex_tool_def)
  from approve_deny_network_failure [OF ex_waiting_tool, of None
      "ErrorObject ''Error'' ''no credentials''"]
  show ?thesis
    by (simp add: l ex_waiting_thread error_text_def)
qed

text \<open>The promise of the REST transport resolves whatever \<^verbatim>\<open>fetch\<close> delivers.\<close>

lemma sendApproval_resolves: "snd (sendApproval rt svc None fetched) = None"
  by (simp add: sendApproval_def)

text \<open>
  Claim C5 at a failed network call. With the REST transport, a \<^verbatim>\<open>fetch\<close> that rejects is
  caught in \<^verbatim>\<open>handleStreamingResponse\<close> and passed to the error callback, and the promise
  of \<^verbatim>\<open>sendApproval\<close> resolves. The \<^verbatim>\<open>catch\<close> of \<^verbatim>\<open>approveToolCall\<close> does not run: the tool
  message stays approved, not waiting and without an error, and the controller's error
  handler appends a separate error message. For \<^verbatim>\<open>denyToolCall\<close> the tool message gets no
  error note either.
\<close>

theorem approval_failure_not_reverted:
  "sendApproval ex_rt ex_svc None (FetchRejects (ErrorObject ''TypeError'' ''Failed to fetch''))
     = ([ErrorCb (ErrorObject ''TypeError'' ''Failed to fetch'')], None)
   \<and> map (\<lambda>m. (id' m, role m, waitingForApproval m, approvalStatus m, error m))
       (messages (state (fst
          (approveToolCall_settle ''t1'' None
             (onError ex_amb2 (ErrorObject ''TypeError'' ''Failed to fetch'')
                (approveToolCall_begin ''t1'' None ex_waiting))))))
     = [(''u0'', User, None, None, None),
        (''t1'', Tool, Some False, Some Approved, None),
        (''u2'', ErrorRole, None, None, Some ''Failed to fetch'')]
   \<and> map (\<lambda>m. (id' m, role m, waitingForApproval m, approvalStatus m, error m))
       (messages (state (fst
          (denyToolCall_settle ''t1'' None
             (onError ex_amb2 (ErrorObject ''TypeError'' ''Failed to fetch'')
                (denyToolCall_begin ''t1'' ex_waiting))))))
     = [(''u0'', User, None, None, None),
        (''t1'', Tool, Some False, Some Denied, None),
        (''u2'', ErrorRole, None, None, Some ''Failed to fetch'')]"
  by (simp add: sendApproval_def handleStreamingResponse_def call_errorCallback_def ex_svc_def
      approveToolCall_settle_def denyToolCall_settle_def onError_def Let_def
      approveToolCall_begin_def denyToolCall_begin_def updateApprovalRequest_def
      updateToolMessage_def getToolMessageByCallId_def removeLoadingMessages_def addMessage_def
      emit_def Object_assign_def level_to_use_def truthy_str_def truthy_bool_def
      ex_waiting_def addApprovalRequest_def addToolMessage_def ex_sent_messages is_tool_call_def
      base_message_def ex_amb_def ex_amb2_def ex_metadata_def)

section \<open>Tool instance numbers\<close>

lemma assignToolInstance_ordinary:
  assumes "tname \<notin> set Object_prototype_keys"
      and "counts tname = None \<and> k = 0 \<or> counts tname = Some (Num k)"
  shows "assignToolInstance tname counts = (Some (Num (Suc k)), counts(tname \<mapsto> Num (Suc k)))"
proof -
  have np: "tname \<noteq> ''__proto__''"
    using assms(1) by (auto simp: Object_prototype_keys_def)
  from assms(2) show ?thesis
  proof
    assume "counts tname = None \<and> k = 0"
    then show ?thesis
      using assms(1) np
      by (simp add: assignToolInstance_def get_count_def put_count_def Let_def)
  next
    assume "counts tname = Some (Num k)"
    then show ?thesis
      using np
      by (cases k) (simp_all add: assignToolInstance_def get_count_def put_count_def Let_def)
  qed
qed

lemma tool_start_counts:
  "toolInstanceCounts (onStreamEvent amb (tool_start tcid tname tin) c)
     = snd (assignToolInstance tname (toolInstanceCounts c))"
  by (simp add: Let_def split: prod.splits)

lemma other_events_keep_counts:
  "\<forall>tcid tname tin. ev \<noteq> tool_start tcid tname tin \<Longrightarrow>
   toolInstanceCounts (onStreamEvent amb ev c) = toolInstanceCounts c"
  by (cases ev) (simp_all add: Let_def split: option.splits)

lemma tool_start_instance:
  assumes "tname \<notin> set Object_prototype_keys"
      and "toolInstanceCounts c tname = None \<and> k = 0 \<or> toolInstanceCounts c tname = Some (Num k)"
      and "getMessage tcid (state c) = None"
  shows "toolInstanceCounts (onStreamEvent amb (tool_start tcid tname tin) c) tname = Some (Num (Suc k))
       \<and> map_option instanceNumber
           (getMessage tcid (state (onStreamEvent amb (tool_start tcid tname tin) c)))
         = Some (Some (Num (Suc k)))"
proof -
  have a: "assignToolInstance tname (toolInstanceCounts c)
             = (Some (Num (Suc k)), (toolInstanceCounts c)(tname \<mapsto> Num (Suc k)))"
    using assms(1,2) by (rule assignToolInstance_ordinary)
  have "find (\<lambda>m. id' m = tcid) (messages (removeApprovalRequest tcid (state c))) = None"
    using assms(3)
    by (simp add: getMessage_def removeApprovalRequest_def emit_def find_id_None_conv
        map_update_found)
  then show ?thesis
    by (simp add: a Let_def getMessage_def addToolMessage_def emit_def list_ex_find
        find_append_last base_message_def)
qed

text \<open>
  For a tool name that \<^verbatim>\<open>Object.prototype\<close> does not define, the counter after any sequence
  of events has grown by the number of \<^verbatim>\<open>tool_start\<close> events for that name; replacing the
  thread leaves the counters alone.
\<close>

lemma assignToolInstance_other:
  "tn \<noteq> tname \<Longrightarrow> snd (assignToolInstance tn counts) tname = counts tname"
  by (simp add: assignToolInstance_def put_count_def Let_def)

lemma count_is_step:
  assumes "tname \<notin> set Object_prototype_keys" "count_is c tname k"
  shows "count_is (onStreamEvent amb ev c) tname (if starts_tool tname ev then Suc k else k)"
proof (cases "starts_tool tname ev")
  case True
  then obtain tcid tin where ev: "ev = tool_start tcid tname tin"
    by (cases ev) simp_all
  have "assignToolInstance tname (toolInstanceCounts c)
          = (Some (Num (Suc k)), (toolInstanceCounts c)(tname \<mapsto> Num (Suc k)))"
    using assms by (intro assignToolInstance_ordinary) (simp_all add: count_is_def)
  then show ?thesis
    using True by (simp add: ev tool_start_counts count_is_def del: onStreamEvent.simps)
next
  case False
  show ?thesis
  proof (cases "\<exists>tcid tn tin. ev = tool_start tcid tn tin")
    case True
    then obtain tcid tn tin where ev: "ev = tool_start tcid tn tin" by blast
    with False have "tn \<noteq> tname" by simp
    then show ?thesis
      using assms(2) False
      by (simp add: ev tool_start_counts count_is_def assignToolInstance_other
          del: onStreamEvent.simps)
  next
    case no: False
    then have "toolInstanceCounts (onStreamEvent amb ev c) = toolInstanceCounts c"
      by (intro other_events_keep_counts) blast
    then show ?thesis using assms(2) False by (simp add: count_is_def)
  qed
qed

lemma count_is_events:
  assumes "tname \<notin> set Object_prototype_keys"
  shows "count_is c tname k \<Longrightarrow>
         count_is (fold (onStreamEvent amb) evs c) tname
           (k + length (filter (starts_tool tname) evs))"
proof (induction evs arbitrary: c k)
  case Nil
  then show ?case by simp
next
  case (Cons ev evs)
  from count_is_step [OF assms Cons.prems, of amb ev]
  have "count_is (onStreamEvent amb ev c) tname (if starts_tool tname ev then Suc k else k)" .
  from Cons.IH [OF this] show ?case by (simp split: if_splits)
qed

lemma new_thread_keeps_counts:
  "toolInstanceCounts (c\<lparr>state := setThreadId newId now (state c)\<rparr>) = toolInstanceCounts c"
  by simp

text \<open>
  Claim C9 at the tool name \<open>constructor\<close>. The counters live in an object literal, and
  \<open>constructor\<close> is a property every object inherits: the first \<^verbatim>\<open>tool_start\<close> with that
  name finds a truthy value, skips the initialisation, increments a function and is
  assigned \<^verbatim>\<open>NaN\<close>; the second one is assigned 1.
\<close>

theorem tool_instance_for_inherited_name:
  "map instanceNumber
     (messages (state
        (onStreamEvent ex_amb (tool_start ''t2'' ''constructor'' None)
          (onStreamEvent ex_amb (tool_start ''t1'' ''constructor'' None)
             (new_ChatController (new_ChatState ''t0'' 0))))))
   = [Some NaN, Some (Num 1)]"
  by (simp add: Let_def removeApprovalRequest_def addToolMessage_def emit_def
      assignToolInstance_def get_count_def put_count_def Object_prototype_keys_def
      is_tool_call_def base_message_def new_ChatController_def new_ChatState_def
      split: prod.splits)

section \<open>The end-of-stream marker\<close>

lemma done_ends_the_read:
  assumes "startsWith line ''data: ''" "trim (drop 6 line) = ''[DONE]''"
  shows "process_lines rt svc (before @ line # rest) = process_lines rt svc (before @ [line])"
  using assms
  by (induction before) (simp_all split: sum.splits Handled.splits)

lemma done_line_is_silent:
  assumes "startsWith line ''data: ''" "trim (drop 6 line) = ''[DONE]''"
  shows "process_lines rt svc (line # rest) = []"
  using assms by simp

text \<open>
  Claim C2 at a stream that goes on after the marker. The \<^verbatim>\<open>break\<close> at \<^verbatim>\<open>[DONE]\<close> leaves the loop
  over the lines of the current read only (\<open>done_ends_the_read\<close>); the \<^verbatim>\<open>while\<close> loop reads
  on, and the event of a line that arrives in a later chunk is passed to the stream
  callback.
\<close>

theorem done_then_later_chunk:
  "processStream ex_rt ex_svc
     ([''data: [DONE]'' @ [newline], ''data: '' @ ex_payload @ [newline]], None)
   = [StreamEventCb (RawEvent ''assistant_token''
        [(''messageId'', Some (JStr ''a1'')), (''token'', Some (JStr ''late''))])]"
  by (simp add: processStream_def Let_def newline_def ex_payload_def quoted_def trim_def
      js_whitespace_def ex_rt_def ex_svc_def handleStreamEvent_def call_streamEventCallback_def)

section \<open>The error callback of the transport\<close>

lemma error_calls_append [simp]: "error_calls (xs @ ys) = error_calls xs @ error_calls ys"
  by (induction xs rule: error_calls.induct) simp_all

lemma error_calls_stream [simp]: "error_calls (call_streamEventCallback svc ev) = []"
  by (simp add: call_streamEventCallback_def)

lemma error_calls_error [simp]:
  "error_calls (call_errorCallback svc e) = (if errorCallback svc then [e] else [])"
  by (simp add: call_errorCallback_def)

lemma read_loop_rejects:
  "read_loop rt svc buffer chunks (Some e)
     = read_loop rt svc buffer chunks None @ call_errorCallback svc e"
  by (induction chunks arbitrary: buffer) (simp_all add: Let_def)

text \<open>
  Claim C6, as the code has it. With an error callback registered, a response that is not
  ok makes exactly one call of it; for status 422 and a body whose \<^verbatim>\<open>detail[0]\<close> is truthy
  the error says "Validation error: msg (field)". A fetch that rejects with an
  \<^verbatim>\<open>AbortError\<close> makes no callback at all, and a fetch that rejects with another error is
  passed to the error callback. When a read of the response body rejects, be it with an
  \<^verbatim>\<open>AbortError\<close>, the callbacks of the chunks read so far are followed by the error callback
  with that error.
\<close>

theorem error_callback_surface:
  "(errorCallback svc \<longrightarrow> \<not> ok res \<longrightarrow>
      length (error_calls (handleStreamingResponse rt svc thread (FetchResponse res))) = 1)
   \<and> (errorCallback svc \<longrightarrow> http_status res = 422 \<longrightarrow> json_body res = Inr errorData \<longrightarrow>
      errorData \<noteq> JNull \<longrightarrow>
      optional_index0 (read_prop errorData ''detail'') = Some first \<longrightarrow> truthy (Some first) \<longrightarrow>
      ToString rt (read_prop first ''msg'') = Inr m \<longrightarrow>
      ToString rt (read_prop first ''field'') = Inr f \<longrightarrow>
      error_calls (handleStreamingResponse rt svc thread (FetchResponse res))
        = [ErrorObject ''Error'' (''Validation error: '' @ m @ '' ('' @ f @ '')'')])
   \<and> handleStreamingResponse rt svc thread (FetchRejects (ErrorObject ''AbortError'' msg)) = []
   \<and> (nm \<noteq> ''AbortError'' \<longrightarrow>
      handleStreamingResponse rt svc thread (FetchRejects (ErrorObject nm msg))
        = call_errorCallback svc (ErrorObject nm msg))
   \<and> (errorCallback svc \<longrightarrow> ok res \<longrightarrow> body res = Some (chunks, Some e) \<longrightarrow>
      handleStreamingResponse rt svc thread (FetchResponse res)
        = handleStreamingResponse rt svc thread (FetchResponse (res\<lparr>body := Some (chunks, None)\<rparr>))
          @ [ErrorCb e])"
proof -
  have single: "errorCallback svc \<longrightarrow> \<not> ok res \<longrightarrow>
      length (error_calls (handleStreamingResponse rt svc thread (FetchResponse res))) = 1"
    by (simp add: handleStreamingResponse_def split: sum.splits)
  have validation: "errorCallback svc \<longrightarrow> http_status res = 422 \<longrightarrow> json_body res = Inr errorData \<longrightarrow>
      errorData \<noteq> JNull \<longrightarrow>
      optional_index0 (read_prop errorData ''detail'') = Some first \<longrightarrow> truthy (Some first) \<longrightarrow>
      ToString rt (read_prop first ''msg'') = Inr m \<longrightarrow>
      ToString rt (read_prop first ''field'') = Inr f \<longrightarrow>
      error_calls (handleStreamingResponse rt svc thread (FetchResponse res))
        = [ErrorObject ''Error'' (''Validation error: '' @ m @ '' ('' @ f @ '')'')]"
    by (simp add: handleStreamingResponse_def ok_def error_message_of_def)
  have aborted: "handleStreamingResponse rt svc thread (FetchRejects (ErrorObject ''AbortError'' msg)) = []"
    by (simp add: handleStreamingResponse_def)
  have failed: "nm \<noteq> ''AbortError'' \<longrightarrow>
      handleStreamingResponse rt svc thread (FetchRejects (ErrorObject nm msg))
        = call_errorCallback svc (ErrorObject nm msg)"
    by (simp add: handleStreamingResponse_def)
  have reading: "errorCallback svc \<longrightarrow> ok res \<longrightarrow> body res = Some (chunks, Some e) \<longrightarrow>
      handleStreamingResponse rt svc thread (FetchResponse res)
        = handleStreamingResponse rt svc thread (FetchResponse (res\<lparr>body := Some (chunks, None)\<rparr>))
          @ [ErrorCb e]"
    by (simp add: handleStreamingResponse_def ok_def processStream_def read_loop_rejects
        call_errorCallback_def)
  from single validation aborted failed reading show ?thesis by blast
qed

theorem error_callback_surface_witness:
  "error_calls (handleStreamingResponse ex_rt ex_svc (Some ''t0'') (FetchResponse ex_invalid))
     = [ErrorObject ''Error'' ''Validation error: field required (message)'']
   \<and> handleStreamingResponse ex_rt ex_svc (Some ''t0'')
       (FetchRejects (ErrorObject ''AbortError'' ''The user aborted a request.'')) = []
   \<and> handleStreamingResponse ex_rt ex_svc (Some ''t0'')
       (FetchRejects (ErrorObject ''TypeError'' ''Failed to fetch''))
     = [ErrorCb (ErrorObject ''TypeError'' ''Failed to fetch'')]
   \<and> handleStreamingResponse ex_rt ex_svc (Some ''t0'') (FetchResponse ex_aborted_read)
     = handleStreamingResponse ex_rt ex_svc (Some ''t0'')
         (FetchResponse (ex_aborted_read\<lparr>body := Some ([''data: '' @ ex_payload @ [newline]], None)\<rparr>))
       @ [ErrorCb (ErrorObject ''AbortError'' ''BodyStreamBuffer was aborted'')]"
proof -
  let ?data = "JObj [(''detail'',
        JArr [JObj [(''msg'', JStr ''field required''), (''field'', JStr ''message'')]])]"
  let ?first = "JObj [(''msg'', JStr ''field required''), (''field'', JStr ''message'')]"
  have cb: "errorCallback ex_svc" by (simp add: ex_svc_def)
  have h1: "\<not> ok ex_invalid" "http_status ex_invalid = 422" "json_body ex_invalid = Inr ?data"
    by (simp_all add: ok_def ex_invalid_def)
  have h2: "?data \<noteq> JNull" "optional_index0 (read_prop ?data ''detail'') = Some ?first"
    "truthy (Some ?first)"
    "ToString ex_rt (read_prop ?first ''msg'') = Inr ''field required''"
    "ToString ex_rt (read_prop ?first ''field'') = Inr ''message''"
    by simp_all
  have h3: "''TypeError'' \<noteq> ''AbortError''" by simp
  have h4: "ok ex_aborted_read"
    "body ex_aborted_read = Some ([''data: '' @ ex_payload @ [newline]],
        Some (ErrorObject ''AbortError'' ''BodyStreamBuffer was aborted''))"
    by (simp_all add: ok_def ex_aborted_read_def)
  from error_callback_surface [of ex_svc ex_invalid ex_rt "Some ''t0''" ?data ?first
      "''field required''" "''message''" "''The user aborted a request.''" "''TypeError''"
      "[]" NotAnError] cb h1 h2
  have a: "error_calls (handleStreamingResponse ex_rt ex_svc (Some ''t0'') (FetchResponse ex_invalid))
     = [ErrorObject ''Error'' (''Validation error: '' @ ''field required'' @ '' ('' @ ''message'' @ '')'')]"
    and b: "handleStreamingResponse ex_rt ex_svc (Some ''t0'')
       (FetchRejects (ErrorObject ''AbortError'' ''The user aborted a request.'')) = []"
    by blast+
  from error_callback_surface [of ex_svc ex_aborted_read ex_rt "Some ''t0''" ?data ?first
      "''field required''" "''message''" "''Failed to fetch''" "''TypeError''"
      "[''data: '' @ ex_payload @ [newline]]"
      "ErrorObject ''AbortError'' ''BodyStreamBuffer was aborted''"] cb h3 h4
  have c: "handleStreamingResponse ex_rt ex_svc (Some ''t0'')
       (FetchRejects (ErrorObject ''TypeError'' ''Failed to fetch''))
     = call_errorCallback ex_svc (ErrorObject ''TypeError'' ''Failed to fetch'')"
    and d: "handleStreamingResponse ex_rt ex_svc (Some ''t0'') (FetchResponse ex_aborted_read)
     = handleStreamingResponse ex_rt ex_svc (Some ''t0'')
         (FetchResponse (ex_aborted_read\<lparr>body := Some ([''data: '' @ ex_payload @ [newline]], None)\<rparr>))
       @ [ErrorCb (ErrorObject ''AbortError'' ''BodyStreamBuffer was aborted'')]"
    by blast+
  from a b c d cb show ?thesis by (simp add: call_errorCallback_def)
qed

text \<open>
  The claim as it is written fails: a request that is cancelled while its body is being
  read reaches the error callback. The read rejects with the abort error, and
  \<^verbatim>\<open>processStream\<close> passes what it catches to the callback.
\<close>

theorem abort_while_reading_counterexample:
  "handleStreamingResponse ex_rt ex_svc (Some ''t0'') (FetchResponse ex_aborted_read)
   = [StreamEventCb (RawEvent ''assistant_token''
        [(''messageId'', Some (JStr ''a1'')), (''token'', Some (JStr ''late''))]),
      ErrorCb (ErrorObject ''AbortError'' ''BodyStreamBuffer was aborted'')]"
  by (simp add: handleStreamingResponse_def ex_aborted_read_def ok_def truthy_str_def
      processStream_def Let_def newline_def ex_payload_def quoted_def trim_def
      js_whitespace_def ex_rt_def ex_svc_def handleStreamEvent_def call_streamEventCallback_def
      call_errorCallback_def)

end
